(* ===== verification/Prelude.thy ===== *)
theory Prelude
  imports Main "HOL-Library.Multiset"
begin

text \<open>
  Shared vocabulary of the development of the Flask blog of \<^verbatim>\<open>src/app.py\<close>:
  the names of the model's types, the Python exceptions the handlers can raise
  (as values of the datatype \<open>error\<close>), the error-propagating sequencing
  \<open>bind_err\<close> that replaces Python's implicit exception propagation, the
  read of a key of \<^verbatim>\<open>request.form\<close>, and SQLite's allocation of a new
  \<^verbatim>\<open>INTEGER PRIMARY KEY\<close> (one more than the largest key of the table).
  The generic lemmas about them are collected in \<open>model_simps\<close> (the equations
  that evaluate the model on concrete requests, which every component extends with
  its definitions) and \<open>rowid_facts\<close> (keys of tables kept as lists of rows).
\<close>

named_theorems model_simps "equations that evaluate the model on concrete inputs"
named_theorems rowid_facts "facts about SQLite rowid allocation and tables as row lists"

type_synonym user_id = nat
type_synonym post_id = nat
type_synonym timestamp = nat
type_synonym client_id = nat

text \<open>\<^verbatim>\<open>request.form\<close>: a multi-dict whose \<open>[]\<close> returns the first value of a key.\<close>
type_synonym form = "string \<rightharpoonup> string"

subsection \<open>Exceptions of the handlers\<close>

text \<open>
  The exceptions a handler of \<^verbatim>\<open>app.py\<close> can raise:
  \<^item> \<open>BadRequestKeyError k\<close>: \<^verbatim>\<open>request.form[k]\<close> with \<open>k\<close> missing (Werkzeug, HTTP 400);
  \<^item> \<open>IntegrityError\<close>: a UNIQUE constraint violated at \<^verbatim>\<open>db.session.commit()\<close> (HTTP 500);
  \<^item> \<open>AttributeError\<close>: \<^verbatim>\<open>None.id\<close> in \<^verbatim>\<open>profile\<close> (HTTP 500);
  \<^item> \<open>NotFound\<close>: \<^verbatim>\<open>abort(404)\<close> from \<^verbatim>\<open>get_or_404\<close>.
\<close>

datatype error = BadRequestKeyError string | IntegrityError | AttributeError | NotFound

fun status_code :: "error \<Rightarrow> nat" where
  "status_code (BadRequestKeyError _) = 400"
| "status_code IntegrityError = 500"
| "status_code AttributeError = 500"
| "status_code NotFound = 404"

text \<open>Sequencing of statements that may raise: the first exception aborts the rest.\<close>

definition bind_err :: "error + 'a \<Rightarrow> ('a \<Rightarrow> error + 'b) \<Rightarrow> error + 'b" where
  "bind_err m f = (case m of Inl e \<Rightarrow> Inl e | Inr x \<Rightarrow> f x)"

text \<open>\<^verbatim>\<open>request.form[k]\<close>.\<close>

definition form_get :: "form \<Rightarrow> string \<Rightarrow> error + string" where
  "form_get f k = (case f k of None \<Rightarrow> Inl (BadRequestKeyError k) | Some v \<Rightarrow> Inr v)"

subsection \<open>SQLite rowid allocation\<close>

text \<open>
  A table whose key is an \<^verbatim>\<open>INTEGER PRIMARY KEY\<close> (an alias of the rowid) declared
  without \<^verbatim>\<open>AUTOINCREMENT\<close>, as SQLAlchemy declares \<^verbatim>\<open>db.Column(db.Integer,
  primary_key=True)\<close>, gives a new row the key one larger than the largest key in the
  table, and 1 in an empty table. Keys are unbounded here: SQLite's fallback to a
  random key after \<open>2^63 - 1\<close> is not modelled.
\<close>

definition max_rowid :: "nat list \<Rightarrow> nat" where
  "max_rowid ks = foldr max ks 0"

definition next_rowid :: "nat list \<Rightarrow> nat" where
  "next_rowid ks = Suc (max_rowid ks)"

declare form_get_def [model_simps] next_rowid_def [model_simps]

subsection \<open>Sequencing and form access\<close>

lemma bind_err_Inl [simp, model_simps]: "bind_err (Inl e) f = Inl e"
  by (simp add: bind_err_def)

lemma bind_err_Inr [simp, model_simps]: "bind_err (Inr x) f = f x"
  by (simp add: bind_err_def)

lemma bind_err_eq_Inr:
  "bind_err m f = Inr y \<longleftrightarrow> (\<exists>x. m = Inr x \<and> f x = Inr y)"
  by (cases m) simp_all

lemma bind_err_eq_Inl:
  "bind_err m f = Inl e \<longleftrightarrow> m = Inl e \<or> (\<exists>x. m = Inr x \<and> f x = Inl e)"
  by (cases m) simp_all

lemma form_get_Some [simp]: "f k = Some v \<Longrightarrow> form_get f k = Inr v"
  by (simp add: form_get_def)

lemma form_get_None [simp]: "f k = None \<Longrightarrow> form_get f k = Inl (BadRequestKeyError k)"
  by (simp add: form_get_def)

lemma form_get_eq_Inr: "form_get f k = Inr v \<longleftrightarrow> f k = Some v"
  by (simp add: form_get_def split: option.splits)

subsection \<open>Fresh keys\<close>

lemma max_rowid_Nil [simp, model_simps]: "max_rowid [] = 0"
  by (simp add: max_rowid_def)

lemma max_rowid_Cons [simp, model_simps]: "max_rowid (k # ks) = max k (max_rowid ks)"
  by (simp add: max_rowid_def)

lemma max_rowid_append [simp]: "max_rowid (ks @ ls) = max (max_rowid ks) (max_rowid ls)"
  by (induction ks) auto

lemma max_rowid_ge [rowid_facts]: "k \<in> set ks \<Longrightarrow> k \<le> max_rowid ks"
  by (induction ks) auto

lemma next_rowid_gt [rowid_facts]: "k \<in> set ks \<Longrightarrow> k < next_rowid ks"
  by (simp add: next_rowid_def le_imp_less_Suc max_rowid_ge)

lemma next_rowid_fresh [rowid_facts]: "next_rowid ks \<notin> set ks"
  using next_rowid_gt by blast

lemma next_rowid_pos [rowid_facts]: "0 < next_rowid ks"
  by (simp add: next_rowid_def)

lemma sorted_wrt_less_snoc [rowid_facts]:
  "sorted_wrt (<) ks \<Longrightarrow> (\<forall>k \<in> set ks. k < n) \<Longrightarrow> sorted_wrt (<) (ks @ [n])"
  by (simp add: sorted_wrt_append)

lemma sorted_wrt_less_snoc_next [rowid_facts]:
  "sorted_wrt (<) ks \<Longrightarrow> sorted_wrt (<) (ks @ [next_rowid ks])"
  by (simp add: sorted_wrt_less_snoc next_rowid_gt)

text \<open>On a key list in ascending order the largest key is the last one.\<close>

lemma max_rowid_sorted_snoc [rowid_facts]:
  "sorted_wrt (<) (ks @ [k]) \<Longrightarrow> max_rowid (ks @ [k]) = k"
  by (induction ks) (auto simp: sorted_wrt_append)

subsection \<open>Tables as lists of rows\<close>

text \<open>
  A table is the list of its rows in rowid order; a query by primary key is
  \<open>find\<close> on the key. With distinct keys the row found is the one row with
  that key.
\<close>

lemma find_key_Some_iff [rowid_facts]:
  "distinct (map k xs) \<Longrightarrow> find (\<lambda>x. k x = i) xs = Some x \<longleftrightarrow> x \<in> set xs \<and> k x = i"
  by (induction xs) (auto simp: image_iff)

lemma find_key_None_iff [rowid_facts]:
  "find (\<lambda>x. k x = i) xs = None \<longleftrightarrow> i \<notin> k ` set xs"
  by (auto simp: find_None_iff)

lemma find_key_snoc_new [rowid_facts]:
  "i \<notin> k ` set xs \<Longrightarrow> k x = i \<Longrightarrow> find (\<lambda>y. k y = i) (xs @ [x]) = Some x"
  by (induction xs) auto

lemma find_key_snoc_old [rowid_facts]:
  "k x \<noteq> i \<Longrightarrow> find (\<lambda>y. k y = i) (xs @ [x]) = find (\<lambda>y. k y = i) xs"
  by (induction xs) auto

lemma find_key_map_keep [rowid_facts]:
  "(\<And>x. k (f x) = k x) \<Longrightarrow> find (\<lambda>x. k x = j) (map f xs) = map_option f (find (\<lambda>x. k x = j) xs)"
  by (induction xs) auto

lemma find_key_filter_other [rowid_facts]:
  "j \<noteq> i \<Longrightarrow> find (\<lambda>x. k x = j) (filter (\<lambda>x. k x \<noteq> i) xs) = find (\<lambda>x. k x = j) xs"
  by (induction xs) auto

lemma distinct_sorted_wrt_less: "sorted_wrt (<) (ks :: nat list) \<Longrightarrow> distinct ks"
  by (induction ks) auto

end
