(* ===== verification/Credentials.thy ===== *)
theory Credentials
  imports Prelude
begin

text \<open>
  The credential store: Werkzeug's \<^verbatim>\<open>generate_password_hash\<close> and
  \<^verbatim>\<open>check_password_hash\<close>, which \<^verbatim>\<open>User.set_password\<close> and
  \<^verbatim>\<open>User.check_password\<close> of \<^verbatim>\<open>app.py\<close> call. They are library code,
  modelled from their documented behaviour. A stored hash is the string
  \<open>method $ salt $ hexdigest\<close>; checking splits it at the first two \<open>$\<close>
  (Python's \<^verbatim>\<open>pwhash.split("$", 2)\<close>), recomputes the digest and compares.
  The key-derivation function itself (scrypt) is a parameter \<open>H\<close> of type
  \<open>hash_fun\<close>, and the random salt is an input: the theorems hold for every
  digest function, and the one that needs collision freedom says so as a hypothesis
  (\<open>inj (H m s)\<close>).
\<close>

type_synonym hash_fun = "string \<Rightarrow> string \<Rightarrow> string \<Rightarrow> string"

text \<open>\<^verbatim>\<open>SALT_CHARS = string.ascii_letters + string.digits\<close>, and \<^verbatim>\<open>gen_salt(16)\<close>.\<close>

definition salt_chars :: string where
  "salt_chars = ''abcdefghijklmnopqrstuvwxyzABCDEFGHIJKLMNOPQRSTUVWXYZ0123456789''"

definition valid_salt :: "string \<Rightarrow> bool" where
  "valid_salt s \<longleftrightarrow> length s = 16 \<and> list_all (\<lambda>c. c \<in> set salt_chars) s"

text \<open>The method string \<^verbatim>\<open>_hash_internal("scrypt", ...)\<close> reports for the default parameters.\<close>

definition default_method :: string where
  "default_method = ''scrypt:32768:8:1''"

definition dollar :: char where
  "dollar = CHR ''$''"

definition generate_password_hash :: "hash_fun \<Rightarrow> string \<Rightarrow> string \<Rightarrow> string" where
  "generate_password_hash H salt password =
     default_method @ [dollar] @ salt @ [dollar] @ H default_method salt password"

text \<open>\<^verbatim>\<open>s.split(c, 1)\<close> when it yields two parts; \<open>None\<close> when \<open>c\<close> does not occur.\<close>

fun split_once :: "char \<Rightarrow> string \<Rightarrow> (string \<times> string) option" where
  "split_once c [] = None"
| "split_once c (x # xs) =
     (if x = c then Some ([], xs)
      else map_option (\<lambda>(a, b). (x # a, b)) (split_once c xs))"

text \<open>
  \<^verbatim>\<open>method, salt, hashval = pwhash.split("$", 2)\<close>: \<open>None\<close> is the
  \<^verbatim>\<open>ValueError\<close> of an unpacking with fewer than three parts.
\<close>

definition split_hash :: "string \<Rightarrow> (string \<times> string \<times> string) option" where
  "split_hash pwhash =
     (case split_once dollar pwhash of
        None \<Rightarrow> None
      | Some (meth, rest) \<Rightarrow>
          (case split_once dollar rest of
             None \<Rightarrow> None
           | Some (salt, hashval) \<Rightarrow> Some (meth, salt, hashval)))"

definition check_password_hash :: "hash_fun \<Rightarrow> string \<Rightarrow> string \<Rightarrow> bool" where
  "check_password_hash H pwhash password =
     (case split_hash pwhash of
        None \<Rightarrow> False
      | Some (meth, salt, hashval) \<Rightarrow> H meth salt password = hashval)"

declare salt_chars_def [model_simps] valid_salt_def [model_simps] default_method_def [model_simps]
  dollar_def [model_simps] generate_password_hash_def [model_simps] split_hash_def [model_simps]
  check_password_hash_def [model_simps]

subsection \<open>Splitting\<close>

lemma split_once_append:
  "c \<notin> set a \<Longrightarrow> split_once c (a @ c # b) = Some (a, b)"
  by (induction a) auto

lemma split_once_Some:
  "split_once c s = Some (a, b) \<Longrightarrow> s = a @ c # b \<and> c \<notin> set a"
  by (induction c s arbitrary: a rule: split_once.induct) (auto split: if_splits)

lemma split_once_None: "split_once c s = None \<longleftrightarrow> c \<notin> set s"
  by (induction s) auto

lemma dollar_not_salt_char: "dollar \<notin> set salt_chars"
  by (simp add: dollar_def salt_chars_def)

lemma dollar_not_in_default_method: "dollar \<notin> set default_method"
  by (simp add: dollar_def default_method_def)

lemma valid_salt_no_dollar: "valid_salt s \<Longrightarrow> dollar \<notin> set s"
  using dollar_not_salt_char by (auto simp: valid_salt_def list_all_iff)

text \<open>Formatting and splitting are inverse when method and salt have no \<open>$\<close>.\<close>

lemma split_hash_format:
  "dollar \<notin> set m \<Longrightarrow> dollar \<notin> set s \<Longrightarrow> split_hash (m @ [dollar] @ s @ [dollar] @ h) = Some (m, s, h)"
  by (simp add: split_hash_def split_once_append)

lemma split_hash_Some:
  "split_hash p = Some (m, s, h) \<Longrightarrow> p = m @ [dollar] @ s @ [dollar] @ h \<and> dollar \<notin> set m \<and> dollar \<notin> set s"
  by (auto simp: split_hash_def split: option.splits dest!: split_once_Some)

lemma split_generate_password_hash:
  "valid_salt salt \<Longrightarrow>
   split_hash (generate_password_hash H salt pw) = Some (default_method, salt, H default_method salt pw)"
  by (simp add: generate_password_hash_def split_hash_format dollar_not_in_default_method
      valid_salt_no_dollar del: append.simps)

lemma check_password_hash_generated:
  "valid_salt salt \<Longrightarrow>
   check_password_hash H (generate_password_hash H salt pw) pw' \<longleftrightarrow>
   H default_method salt pw' = H default_method salt pw"
  by (simp add: check_password_hash_def split_generate_password_hash)

subsection \<open>Properties of the credential store\<close>

text \<open>
  The stored hash format round-trips: splitting at the first two \<open>$\<close> gives
  back method, salt and digest exactly when the string is their \<open>$\<close>-joined
  concatenation with no \<open>$\<close> in method and salt (the digest may contain any
  character).
\<close>

lemma split_hash_iff:
  "split_hash p = Some (m, s, h) \<longleftrightarrow>
   p = m @ [dollar] @ s @ [dollar] @ h \<and> dollar \<notin> set m \<and> dollar \<notin> set s"
  using split_hash_Some split_hash_format by blast

lemma generated_hash_has_dollar: "dollar \<in> set (generate_password_hash H s pw)"
  by (simp add: generate_password_hash_def)

end
