(* ===== verification/Models.thy ===== *)
theory Models
  imports Credentials
begin

text \<open>
  The ORM layer of \<^verbatim>\<open>app.py\<close>: the SQLAlchemy models \<^verbatim>\<open>User\<close> and
  \<^verbatim>\<open>Post\<close> (lines 23--49), the two password methods of \<^verbatim>\<open>User\<close>, the
  queries the handlers issue, and the effect of \<^verbatim>\<open>db.session.add\<close>,
  \<^verbatim>\<open>db.session.delete\<close> and attribute assignment followed by
  \<^verbatim>\<open>db.session.commit()\<close> on the SQLite store. A table is the list of its
  rows in rowid order (the order of a query without \<^verbatim>\<open>ORDER BY\<close>).
  The column \<^verbatim>\<open>id\<close> is the record field \<open>uid\<close> of a user and \<open>pid\<close>
  of a post (\<open>id\<close> is HOL's identity function).
\<close>

record user =
  uid :: user_id
  username :: string
  email :: string
  password_hash :: string

record post =
  pid :: post_id
  title :: string
  content :: string
  author :: string
  created_at :: timestamp
  user_id :: user_id

record database =
  users :: "user list"
  posts :: "post list"

definition empty_db :: database where
  "empty_db = \<lparr>users = [], posts = []\<rparr>"

subsection \<open>The password methods of \<^verbatim>\<open>User\<close>\<close>

text \<open>\<^verbatim>\<open>User(username=..., email=...)\<close>: a transient row; its key is assigned at commit.\<close>

definition new_user :: "string \<Rightarrow> string \<Rightarrow> user" where
  "new_user name em = \<lparr>uid = 0, username = name, email = em, password_hash = []\<rparr>"

definition set_password :: "hash_fun \<Rightarrow> string \<Rightarrow> user \<Rightarrow> string \<Rightarrow> user" where
  "set_password H salt u password = u\<lparr>password_hash := generate_password_hash H salt password\<rparr>"

definition check_password :: "hash_fun \<Rightarrow> user \<Rightarrow> string \<Rightarrow> bool" where
  "check_password H u password = check_password_hash H (password_hash u) password"

text \<open>\<^verbatim>\<open>Post(title=..., content=..., author=..., user_id=...)\<close>; key and timestamp come at commit.\<close>

definition new_post :: "string \<Rightarrow> string \<Rightarrow> string \<Rightarrow> user_id \<Rightarrow> post" where
  "new_post t c a u = \<lparr>pid = 0, title = t, content = c, author = a, created_at = 0, user_id = u\<rparr>"

subsection \<open>Queries\<close>

text \<open>\<^verbatim>\<open>User.query.filter_by(username=username).first()\<close>\<close>

definition user_by_username :: "database \<Rightarrow> string \<Rightarrow> user option" where
  "user_by_username d name = find (\<lambda>u. username u = name) (users d)"

text \<open>\<^verbatim>\<open>User.query.get(i)\<close>\<close>

definition user_get :: "database \<Rightarrow> user_id \<Rightarrow> user option" where
  "user_get d i = find (\<lambda>u. uid u = i) (users d)"

text \<open>\<^verbatim>\<open>Post.query.get(i)\<close> and \<^verbatim>\<open>Post.query.get_or_404(i)\<close>\<close>

definition post_get :: "database \<Rightarrow> post_id \<Rightarrow> post option" where
  "post_get d i = find (\<lambda>p. pid p = i) (posts d)"

definition get_or_404 :: "database \<Rightarrow> post_id \<Rightarrow> error + post" where
  "get_or_404 d i = (case post_get d i of None \<Rightarrow> Inl NotFound | Some p \<Rightarrow> Inr p)"

text \<open>\<^verbatim>\<open>Post.query.all()\<close>: the table in storage (rowid) order.\<close>

definition post_all :: "database \<Rightarrow> post list" where
  "post_all d = posts d"

text \<open>
  \<^verbatim>\<open>ORDER BY created_at DESC\<close>. SQL leaves the order of rows with equal timestamps
  open; the model keeps them in rowid order (a stable sort on the negated key). The
  contract SQL does promise is \<open>is_created_desc_ordering\<close>, and
  \<open>order_by_created_desc_refines\<close> below shows the model meets it.
\<close>

definition order_by_created_desc :: "post list \<Rightarrow> post list" where
  "order_by_created_desc ps = sort_key (\<lambda>p. - int (created_at p)) ps"

definition is_created_desc_ordering :: "post list \<Rightarrow> post list \<Rightarrow> bool" where
  "is_created_desc_ordering xs ys \<longleftrightarrow>
     mset ys = mset xs \<and> sorted_wrt (\<lambda>p q. created_at q \<le> created_at p) ys"

text \<open>\<^verbatim>\<open>Post.query.filter_by(user_id=i).order_by(Post.created_at.desc()).all()\<close>\<close>

definition posts_by_user_desc :: "database \<Rightarrow> user_id \<Rightarrow> post list" where
  "posts_by_user_desc d i = order_by_created_desc (filter (\<lambda>p. user_id p = i) (posts d))"

subsection \<open>Writes, each followed by \<^verbatim>\<open>db.session.commit()\<close>\<close>

text \<open>
  Inserting a user: the UNIQUE constraints on \<^verbatim>\<open>username\<close> and
  \<^verbatim>\<open>email\<close> make the commit raise \<^verbatim>\<open>IntegrityError\<close> (and roll back);
  otherwise the row gets the next rowid.
\<close>

definition add_user :: "database \<Rightarrow> user \<Rightarrow> error + database" where
  "add_user d u =
     (if username u \<in> set (map username (users d)) \<or> email u \<in> set (map email (users d))
      then Inl IntegrityError
      else Inr (d\<lparr>users := users d @ [u\<lparr>uid := next_rowid (map uid (users d))\<rparr>]\<rparr>))"

text \<open>
  Inserting a post: no constraint can fail (SQLite does not enforce the foreign key
  unless \<^verbatim>\<open>PRAGMA foreign_keys\<close> is on, and every column is given); the
  row gets the next rowid and \<^verbatim>\<open>created_at\<close> the commit time \<open>now\<close>
  (the column default \<^verbatim>\<open>CURRENT_TIMESTAMP\<close>, in seconds).
\<close>

definition add_post :: "database \<Rightarrow> timestamp \<Rightarrow> post \<Rightarrow> database" where
  "add_post d now p =
     d\<lparr>posts := posts d @ [p\<lparr>pid := next_rowid (map pid (posts d)), created_at := now\<rparr>]\<rparr>"

text \<open>Assigning \<^verbatim>\<open>title\<close>, \<^verbatim>\<open>content\<close>, \<^verbatim>\<open>author\<close> of the loaded post and committing.\<close>

definition update_post :: "database \<Rightarrow> post_id \<Rightarrow> string \<Rightarrow> string \<Rightarrow> string \<Rightarrow> database" where
  "update_post d i t c a =
     d\<lparr>posts := map (\<lambda>p. if pid p = i then p\<lparr>title := t, content := c, author := a\<rparr> else p) (posts d)\<rparr>"

definition delete_post :: "database \<Rightarrow> post_id \<Rightarrow> database" where
  "delete_post d i = d\<lparr>posts := filter (\<lambda>p. pid p \<noteq> i) (posts d)\<rparr>"

subsection \<open>Well-formed tables\<close>

text \<open>
  Keys ascend strictly in rowid order (so they are distinct) and the UNIQUE columns
  hold distinct values.
\<close>

definition wf_db :: "database \<Rightarrow> bool" where
  "wf_db d \<longleftrightarrow>
     sorted_wrt (<) (map uid (users d)) \<and>
     distinct (map username (users d)) \<and>
     distinct (map email (users d)) \<and>
     sorted_wrt (<) (map pid (posts d))"

declare empty_db_def [model_simps] new_user_def [model_simps] set_password_def [model_simps]
  check_password_def [model_simps] new_post_def [model_simps] user_by_username_def [model_simps]
  user_get_def [model_simps] post_get_def [model_simps] get_or_404_def [model_simps]
  post_all_def [model_simps] order_by_created_desc_def [model_simps] posts_by_user_desc_def [model_simps]
  add_user_def [model_simps] add_post_def [model_simps] update_post_def [model_simps]
  delete_post_def [model_simps]

lemma map_pid_update_post [simp]: "map pid (posts (update_post d i t c a)) = map pid (posts d)"
  by (simp add: update_post_def comp_def)

lemma users_update_post [simp]: "users (update_post d i t c a) = users d"
  by (simp add: update_post_def)

lemma users_delete_post [simp]: "users (delete_post d i) = users d"
  by (simp add: delete_post_def)

lemma users_add_post [simp]: "users (add_post d now p) = users d"
  by (simp add: add_post_def)

lemma posts_add_user: "add_user d u = Inr d' \<Longrightarrow> posts d' = posts d"
  by (simp add: add_user_def split: if_splits) (auto)

lemma add_user_Inl_iff:
  "add_user d u = Inl e \<longleftrightarrow>
     e = IntegrityError \<and> (username u \<in> username ` set (users d) \<or> email u \<in> email ` set (users d))"
  by (auto simp: add_user_def)

lemma add_user_Inr_iff:
  "add_user d u = Inr d' \<longleftrightarrow>
     username u \<notin> username ` set (users d) \<and> email u \<notin> email ` set (users d) \<and>
     d' = d\<lparr>users := users d @ [u\<lparr>uid := next_rowid (map uid (users d))\<rparr>]\<rparr>"
  by (auto simp: add_user_def)

subsection \<open>Writes keep the tables well formed\<close>

lemma wf_db_add_user:
  assumes "wf_db d" and "add_user d u = Inr d'"
  shows "wf_db d'"
  using assms by (auto simp: wf_db_def add_user_Inr_iff sorted_wrt_less_snoc_next)

lemma wf_db_add_post: "wf_db d \<Longrightarrow> wf_db (add_post d now p)"
  by (simp add: wf_db_def add_post_def sorted_wrt_less_snoc_next)

lemma wf_db_update_post: "wf_db d \<Longrightarrow> wf_db (update_post d i t c a)"
  by (simp add: wf_db_def)

lemma wf_db_delete_post: "wf_db d \<Longrightarrow> wf_db (delete_post d i)"
  by (auto simp: wf_db_def delete_post_def sorted_wrt_map intro: sorted_wrt_filter)

lemmas wf_db_writes = wf_db_add_user wf_db_add_post wf_db_update_post wf_db_delete_post

subsection \<open>What each write does to the lookups\<close>

lemma distinct_pids: "wf_db d \<Longrightarrow> distinct (map pid (posts d))"
  by (simp add: wf_db_def distinct_sorted_wrt_less)

lemma distinct_uids: "wf_db d \<Longrightarrow> distinct (map uid (users d))"
  by (simp add: wf_db_def distinct_sorted_wrt_less)

lemma post_get_Some_iff:
  "wf_db d \<Longrightarrow> post_get d i = Some p \<longleftrightarrow> p \<in> set (posts d) \<and> pid p = i"
  by (simp add: post_get_def find_key_Some_iff distinct_pids)

lemma user_get_Some_iff:
  "wf_db d \<Longrightarrow> user_get d i = Some u \<longleftrightarrow> u \<in> set (users d) \<and> uid u = i"
  by (simp add: user_get_def find_key_Some_iff distinct_uids)

lemma post_get_add_post_new:
  "post_get (add_post d now p) (next_rowid (map pid (posts d))) =
     Some (p\<lparr>pid := next_rowid (map pid (posts d)), created_at := now\<rparr>)"
  using next_rowid_fresh [of "map pid (posts d)"]
  by (simp add: post_get_def add_post_def find_key_snoc_new)

lemma post_get_add_post_old:
  "i \<noteq> next_rowid (map pid (posts d)) \<Longrightarrow> post_get (add_post d now p) i = post_get d i"
  by (simp add: post_get_def add_post_def find_key_snoc_old)

lemma post_get_update_post:
  "post_get (update_post d i t c a) j =
     map_option (\<lambda>p. if pid p = i then p\<lparr>title := t, content := c, author := a\<rparr> else p) (post_get d j)"
  by (simp add: post_get_def update_post_def find_key_map_keep)

lemma post_get_delete_post_same: "post_get (delete_post d i) i = None"
  by (simp add: post_get_def delete_post_def find_None_iff)

lemma post_get_delete_post_other: "j \<noteq> i \<Longrightarrow> post_get (delete_post d i) j = post_get d j"
  by (simp add: post_get_def delete_post_def find_key_filter_other)

subsection \<open>\<^verbatim>\<open>ORDER BY created_at DESC\<close>\<close>

lemma order_by_created_desc_refines: "is_created_desc_ordering xs (order_by_created_desc xs)"
proof -
  have "sorted (map (\<lambda>p. - int (created_at p)) (order_by_created_desc xs))"
    by (simp add: order_by_created_desc_def)
  then show ?thesis
    by (simp add: is_created_desc_ordering_def order_by_created_desc_def sorted_map)
qed

lemma set_order_by_created_desc [simp]: "set (order_by_created_desc xs) = set xs"
  by (simp add: order_by_created_desc_def)

text \<open>
  When the rows are in strictly increasing timestamp order (every post of the table was
  committed in a later second than the one before), the descending order is the
  reverse storage order, whichever order SQL chooses among ties.
\<close>

lemma order_by_created_desc_chronological:
  assumes "sorted_wrt (<) (map created_at xs)"
  shows "order_by_created_desc xs = rev xs"
  unfolding order_by_created_desc_def
proof (rule sort_key_inj_key_eq)
  show "mset xs = mset (rev xs)" by simp
  from assms have "distinct (map created_at xs)"
    by (rule distinct_sorted_wrt_less)
  then have "inj_on created_at (set xs)"
    by (simp add: distinct_map)
  then show "inj_on (\<lambda>p. - int (created_at p)) (set xs)"
    by (simp add: inj_on_def)
  from assms show "sorted (map (\<lambda>p. - int (created_at p)) (rev xs))"
    by (simp add: sorted_map sorted_wrt_rev sorted_wrt_map sorted_wrt_mono_rel[of _ "\<lambda>x y. created_at x < created_at y"])
qed

lemma set_posts_by_user_desc:
  "set (posts_by_user_desc d i) = {p \<in> set (posts d). user_id p = i}"
  by (auto simp: posts_by_user_desc_def)

subsection \<open>Keys of deleted posts\<close>

text \<open>
  C23: Post keys are not stable over time: after the post with the largest key is
  deleted, the next post created gets a key no larger than the deleted one (the same
  key when the keys were consecutive), because the table is declared without
  \<^verbatim>\<open>AUTOINCREMENT\<close>. A link \<^verbatim>\<open>/post/<id>\<close> to a deleted post can
  come to show a different post.
\<close>

theorem deleted_newest_key_reused:
  assumes "wf_db d" and "posts d = ps @ [p]" and "0 < pid p"
  shows "next_rowid (map pid (posts (delete_post d (pid p)))) \<le> pid p"
proof -
  from assms have sorted: "sorted_wrt (<) (map pid ps @ [pid p])"
    by (simp add: wf_db_def)
  then have "\<forall>q \<in> set ps. pid q < pid p"
    by (simp add: sorted_wrt_append)
  then have "filter (\<lambda>q. pid q \<noteq> pid p) (ps @ [p]) = ps"
    by (induction ps) auto
  moreover have "max_rowid (map pid ps) < pid p"
    using \<open>\<forall>q \<in> set ps. pid q < pid p\<close> assms(3) by (induction ps) auto
  ultimately show ?thesis
    using assms(2) by (simp add: delete_post_def next_rowid_def)
qed

lemma deleted_newest_key_reused_witness:
  "next_rowid (map pid (posts (delete_post
      \<lparr>users = [], posts = [\<lparr>pid = 1, title = ''T'', content = ''C'', author = ''A'', created_at = 0, user_id = 1\<rparr>]\<rparr> 1)))
   \<le> 1"
  using deleted_newest_key_reused [where ps = "[]" and
      d = "\<lparr>users = [], posts = [\<lparr>pid = 1, title = ''T'', content = ''C'', author = ''A'', created_at = 0, user_id = 1\<rparr>]\<rparr>"
      and p = "\<lparr>pid = 1, title = ''T'', content = ''C'', author = ''A'', created_at = 0, user_id = 1\<rparr>"]
  by (simp add: wf_db_def)

subsection \<open>The password methods of \<^verbatim>\<open>User\<close>\<close>

text \<open>
  C11: What \<^verbatim>\<open>User.set_password\<close> stores decodes back: splitting the stored
  hash at the first two \<open>$\<close>, as \<^verbatim>\<open>check_password_hash\<close> does, gives
  the method, the salt and the digest of the password it was computed from.
\<close>

theorem set_password_format_roundtrip:
  assumes "valid_salt s"
  shows "split_hash (password_hash (set_password H s u pw)) = Some (default_method, s, H default_method s pw)"
  using assms by (simp add: set_password_def split_generate_password_hash)

lemma set_password_format_roundtrip_witness:
  "split_hash (password_hash (set_password (\<lambda>m s p. p) ''abcdefgh12345678'' (new_user ''alice'' ''a@x.com'') ''pw'')) =
     Some (default_method, ''abcdefgh12345678'', ''pw'')"
  using set_password_format_roundtrip [of "''abcdefgh12345678''" "\<lambda>m s p. p" "new_user ''alice'' ''a@x.com''" "''pw''"]
  by (simp add: valid_salt_def salt_chars_def)





end
