(* ===== verification/Session.thy ===== *)
theory Session
  imports Models
begin

text \<open>
  The session manager: Flask-Login as \<^verbatim>\<open>app.py\<close> configures it (lines 18--20)
  with the user loader \<^verbatim>\<open>load_user\<close> (lines 52--55). Each client holds a signed
  session cookie; Flask-Login keeps the logged-in user's id under
  \<^verbatim>\<open>_user_id\<close>. The server-side view of all cookies is a map from clients to
  user ids. \<^verbatim>\<open>login_user\<close> stores the id, \<^verbatim>\<open>logout_user\<close> removes
  it, and \<^verbatim>\<open>current_user\<close> replays the stored id through the loader: no user
  (the anonymous user) when there is no id or no such row.
  The \<^verbatim>\<open>str\<close>/\<^verbatim>\<open>int\<close> conversion of the stored id is the identity
  on the ids \<^verbatim>\<open>login_user\<close> writes, so the id is kept as a number.
\<close>

type_synonym sessions = "client_id \<rightharpoonup> user_id"

definition load_user :: "database \<Rightarrow> user_id \<Rightarrow> user option" where
  "load_user d i = user_get d i"

definition current_user :: "database \<Rightarrow> sessions \<Rightarrow> client_id \<Rightarrow> user option" where
  "current_user d s c = (case s c of None \<Rightarrow> None | Some i \<Rightarrow> load_user d i)"

definition login_user :: "sessions \<Rightarrow> client_id \<Rightarrow> user \<Rightarrow> sessions" where
  "login_user s c u = s(c \<mapsto> uid u)"

definition logout_user :: "sessions \<Rightarrow> client_id \<Rightarrow> sessions" where
  "logout_user s c = s(c := None)"

text \<open>Every stored id names a user of the table: no session is orphaned.\<close>

definition sessions_valid :: "database \<Rightarrow> sessions \<Rightarrow> bool" where
  "sessions_valid d s \<longleftrightarrow> ran s \<subseteq> uid ` set (users d)"

declare load_user_def [model_simps] current_user_def [model_simps] login_user_def [model_simps]
  logout_user_def [model_simps]

lemma current_user_login_user:
  "wf_db d \<Longrightarrow> u \<in> set (users d) \<Longrightarrow> current_user d (login_user s c u) c = Some u"
  by (simp add: current_user_def login_user_def load_user_def user_get_Some_iff)

lemma current_user_login_user_other:
  "c' \<noteq> c \<Longrightarrow> current_user d (login_user s c u) c' = current_user d s c'"
  by (simp add: current_user_def login_user_def)

lemma current_user_logout_user: "current_user d (logout_user s c) c = None"
  by (simp add: current_user_def logout_user_def)

lemma current_user_logout_user_other:
  "c' \<noteq> c \<Longrightarrow> current_user d (logout_user s c) c' = current_user d s c'"
  by (simp add: current_user_def logout_user_def)

lemma current_user_Some:
  "wf_db d \<Longrightarrow> current_user d s c = Some u \<Longrightarrow> u \<in> set (users d) \<and> s c = Some (uid u)"
  by (auto simp: current_user_def load_user_def user_get_Some_iff split: option.splits)

lemma current_user_None_iff:
  "current_user d s c = None \<longleftrightarrow> s c = None \<or> (\<exists>i. s c = Some i \<and> i \<notin> uid ` set (users d))"
  by (auto simp: current_user_def load_user_def user_get_def find_key_None_iff split: option.splits)

lemma sessions_valid_current_user:
  "sessions_valid d s \<Longrightarrow> s c = Some i \<Longrightarrow> \<exists>u. current_user d s c = Some u"
  by (cases "current_user d s c") (auto simp: sessions_valid_def current_user_None_iff ran_def)

lemma sessions_valid_login_user:
  "sessions_valid d s \<Longrightarrow> u \<in> set (users d) \<Longrightarrow> sessions_valid d (login_user s c u)"
  by (auto simp: sessions_valid_def login_user_def ran_def)

lemma sessions_valid_logout_user:
  "sessions_valid d s \<Longrightarrow> sessions_valid d (logout_user s c)"
  by (auto simp: sessions_valid_def logout_user_def ran_def)

lemma sessions_valid_mono:
  "sessions_valid d s \<Longrightarrow> set (users d) \<subseteq> set (users d') \<Longrightarrow> sessions_valid d' s"
  by (auto simp: sessions_valid_def)

end
