(* ===== verification/Handlers.thy ===== *)
theory Handlers
  imports Session
begin

text \<open>
  The view functions of \<^verbatim>\<open>app.py\<close> (lines 58--164), one definition each, over
  the application state \<open>app\<close>: the database and the session map. A view returns
  \<open>Inr (a', r)\<close>, the new state and the response, or \<open>Inl e\<close>, the exception it
  raised; \<open>finalize\<close> turns an exception into its HTTP error, with the state
  unchanged, since no commit happened (Flask-SQLAlchemy rolls the session back at
  teardown). \<^verbatim>\<open>login_required\<close> is the Flask-Login decorator, and
  \<open>view_function\<close> is Flask's table from endpoints to views. The environment of a
  request (the clock reading that \<^verbatim>\<open>CURRENT_TIMESTAMP\<close> gives and the random
  salt of \<^verbatim>\<open>gen_salt\<close>) is the record \<open>env\<close>.
\<close>

datatype http_method = GET | HEAD | POST | PUT | DELETE | PATCH | OPTIONS

record request =
  request_method :: http_method
  path :: string
  form :: form

record env =
  now :: timestamp
  salt :: string

text \<open>Targets of \<^verbatim>\<open>redirect(url_for(...))\<close>, and Flask-Login's redirect to the login view.\<close>

datatype target = To_login | To_login_next string | To_index | To_post post_id

text \<open>
  The two plain-text bodies of \<^verbatim>\<open>app.py\<close>: the message that the user name
  exists (line 66) and the message that user name or password is wrong (line 88).
\<close>

datatype message = Msg_username_exists | Msg_bad_credentials

datatype page =
    Register_page | Login_page | Index_page "post list" | About_page | Create_page
  | Post_page post | Edit_page post | Profile_page user "post list"

datatype response =
    Redirect target | Render page | Text message | Http_error nat | Allow "http_method list"

record app =
  db :: database
  sessions :: sessions

type_synonym result = "error + (app \<times> response)"

definition finalize :: "app \<Rightarrow> result \<Rightarrow> app \<times> response" where
  "finalize a r = (case r of Inl e \<Rightarrow> (a, Http_error (status_code e)) | Inr x \<Rightarrow> x)"

text \<open>
  \<^verbatim>\<open>@login_required\<close>: without a current user, Flask-Login's
  \<^verbatim>\<open>unauthorized()\<close> redirects to the login view with the requested path as
  \<^verbatim>\<open>next\<close>; otherwise the view runs for that user.
\<close>

definition login_required :: "app \<Rightarrow> client_id \<Rightarrow> request \<Rightarrow> (user \<Rightarrow> result) \<Rightarrow> result" where
  "login_required a c req view =
     (case current_user (db a) (sessions a) c of
        None \<Rightarrow> Inr (a, Redirect (To_login_next (path req)))
      | Some u \<Rightarrow> view u)"

subsection \<open>The views\<close>

definition register :: "hash_fun \<Rightarrow> env \<Rightarrow> request \<Rightarrow> app \<Rightarrow> result" where
  "register H e req a =
     (if request_method req = POST then
        bind_err (form_get (form req) ''username'') (\<lambda>name.
        bind_err (form_get (form req) ''email'') (\<lambda>em.
        bind_err (form_get (form req) ''password'') (\<lambda>pw.
          if user_by_username (db a) name \<noteq> None then Inr (a, Text Msg_username_exists)
          else bind_err (add_user (db a) (set_password H (salt e) (new_user name em) pw))
                 (\<lambda>d'. Inr (a\<lparr>db := d'\<rparr>, Redirect To_login)))))
      else Inr (a, Render Register_page))"

definition login :: "hash_fun \<Rightarrow> client_id \<Rightarrow> request \<Rightarrow> app \<Rightarrow> result" where
  "login H c req a =
     (if request_method req = POST then
        bind_err (form_get (form req) ''username'') (\<lambda>name.
        bind_err (form_get (form req) ''password'') (\<lambda>pw.
          (case user_by_username (db a) name of
             Some u \<Rightarrow>
               if check_password H u pw
               then Inr (a\<lparr>sessions := login_user (sessions a) c u\<rparr>, Redirect To_index)
               else Inr (a, Text Msg_bad_credentials)
           | None \<Rightarrow> Inr (a, Text Msg_bad_credentials))))
      else Inr (a, Render Login_page))"

definition logout :: "client_id \<Rightarrow> request \<Rightarrow> app \<Rightarrow> result" where
  "logout c req a =
     login_required a c req (\<lambda>u. Inr (a\<lparr>sessions := logout_user (sessions a) c\<rparr>, Redirect To_login))"

definition index :: "app \<Rightarrow> result" where
  "index a = Inr (a, Render (Index_page (post_all (db a))))"

definition about :: "app \<Rightarrow> result" where
  "about a = Inr (a, Render About_page)"

definition create :: "env \<Rightarrow> client_id \<Rightarrow> request \<Rightarrow> app \<Rightarrow> result" where
  "create e c req a =
     login_required a c req (\<lambda>u.
       if request_method req = POST then
         bind_err (form_get (form req) ''title'') (\<lambda>t.
         bind_err (form_get (form req) ''content'') (\<lambda>ct.
         bind_err (form_get (form req) ''author'') (\<lambda>au.
           Inr (a\<lparr>db := add_post (db a) (now e) (new_post t ct au (uid u))\<rparr>, Redirect To_index))))
       else Inr (a, Render Create_page))"

text \<open>The view \<^verbatim>\<open>post(post_id)\<close>; the name \<open>post\<close> is the record type of a row.\<close>

definition post_view :: "post_id \<Rightarrow> app \<Rightarrow> result" where
  "post_view i a = bind_err (get_or_404 (db a) i) (\<lambda>p. Inr (a, Render (Post_page p)))"

definition edit :: "client_id \<Rightarrow> request \<Rightarrow> post_id \<Rightarrow> app \<Rightarrow> result" where
  "edit c req i a =
     login_required a c req (\<lambda>u.
       bind_err (get_or_404 (db a) i) (\<lambda>p.
         if request_method req = POST then
           bind_err (form_get (form req) ''title'') (\<lambda>t.
           bind_err (form_get (form req) ''content'') (\<lambda>ct.
           bind_err (form_get (form req) ''author'') (\<lambda>au.
             Inr (a\<lparr>db := update_post (db a) (pid p) t ct au\<rparr>, Redirect (To_post (pid p))))))
         else Inr (a, Render (Edit_page p))))"

definition delete :: "client_id \<Rightarrow> request \<Rightarrow> post_id \<Rightarrow> app \<Rightarrow> result" where
  "delete c req i a =
     login_required a c req (\<lambda>u.
       bind_err (get_or_404 (db a) i) (\<lambda>p.
         Inr (a\<lparr>db := delete_post (db a) (pid p)\<rparr>, Redirect To_index)))"

text \<open>\<^verbatim>\<open>user.id\<close> on the \<^verbatim>\<open>None\<close> of an unknown user name raises \<^verbatim>\<open>AttributeError\<close>.\<close>

definition profile :: "client_id \<Rightarrow> request \<Rightarrow> string \<Rightarrow> app \<Rightarrow> result" where
  "profile c req name a =
     login_required a c req (\<lambda>u.
       (case user_by_username (db a) name of
          None \<Rightarrow> Inl AttributeError
        | Some v \<Rightarrow> Inr (a, Render (Profile_page v (posts_by_user_desc (db a) (uid v))))))"

subsection \<open>Endpoints\<close>

text \<open>The endpoints of the URL map, with the values of their URL variables.\<close>

datatype endpoint =
    EP_register | EP_login | EP_logout | EP_index | EP_about | EP_create
  | EP_post post_id | EP_edit post_id | EP_delete post_id | EP_profile string

fun view_function :: "hash_fun \<Rightarrow> env \<Rightarrow> client_id \<Rightarrow> request \<Rightarrow> endpoint \<Rightarrow> app \<Rightarrow> result" where
  "view_function H e c req EP_register a = register H e req a"
| "view_function H e c req EP_login a = login H c req a"
| "view_function H e c req EP_logout a = logout c req a"
| "view_function H e c req EP_index a = index a"
| "view_function H e c req EP_about a = about a"
| "view_function H e c req EP_create a = create e c req a"
| "view_function H e c req (EP_post i) a = post_view i a"
| "view_function H e c req (EP_edit i) a = edit c req i a"
| "view_function H e c req (EP_delete i) a = delete c req i a"
| "view_function H e c req (EP_profile n) a = profile c req n a"

text \<open>The endpoints whose views carry \<^verbatim>\<open>@login_required\<close> (lines 93, 110, 134, 149, 160).\<close>

fun requires_login :: "endpoint \<Rightarrow> bool" where
  "requires_login EP_logout = True"
| "requires_login EP_create = True"
| "requires_login (EP_edit _) = True"
| "requires_login (EP_delete _) = True"
| "requires_login (EP_profile _) = True"
| "requires_login _ = False"

subsection \<open>The state every view keeps\<close>

text \<open>
  Beyond the well-formed tables: every post is owned by a user of the table (the
  foreign key, which SQLite does not check), and every session names a user.
\<close>

definition posts_owned :: "database \<Rightarrow> bool" where
  "posts_owned d \<longleftrightarrow> (\<forall>p \<in> set (posts d). user_id p \<in> uid ` set (users d))"

definition app_ok :: "app \<Rightarrow> bool" where
  "app_ok a \<longleftrightarrow> wf_db (db a) \<and> sessions_valid (db a) (sessions a) \<and> posts_owned (db a)"


subsection \<open>A small state for the witnesses\<close>

definition alice :: user where
  "alice = \<lparr>uid = 1, username = ''alice'', email = ''a@x.com'', password_hash = ''h''\<rparr>"

definition bob :: user where
  "bob = \<lparr>uid = 2, username = ''bob'', email = ''b@x.com'', password_hash = ''h''\<rparr>"

definition alice_post :: post where
  "alice_post = \<lparr>pid = 1, title = ''T'', content = ''C'', author = ''A'', created_at = 3, user_id = 1\<rparr>"

text \<open>Alice and Bob registered, Alice's post stored; client 0 is Alice, client 1 Bob.\<close>

definition demo_app :: app where
  "demo_app = \<lparr>db = \<lparr>users = [alice, bob], posts = [alice_post]\<rparr>, sessions = [0 \<mapsto> 1, 1 \<mapsto> 2]\<rparr>"

definition post_form :: "(string \<times> string) list \<Rightarrow> string \<Rightarrow> request" where
  "post_form kvs p = \<lparr>request_method = POST, path = p, form = map_of kvs\<rparr>"

lemmas demo_simps = demo_app_def alice_def bob_def alice_post_def post_form_def
  current_user_def load_user_def user_get_def user_by_username_def post_get_def

declare finalize_def [model_simps] login_required_def [model_simps] register_def [model_simps]
  login_def [model_simps] logout_def [model_simps] index_def [model_simps] about_def [model_simps]
  create_def [model_simps] post_view_def [model_simps] edit_def [model_simps] delete_def [model_simps]
  profile_def [model_simps] post_form_def [model_simps]

subsection \<open>Facts the views share\<close>

lemma finalize_Inl [simp]: "finalize a (Inl e) = (a, Http_error (status_code e))"
  by (simp add: finalize_def)

lemma finalize_Inr [simp]: "finalize a (Inr x) = x"
  by (simp add: finalize_def)

lemma login_required_anonymous [simp]:
  "current_user (db a) (sessions a) c = None \<Longrightarrow>
   login_required a c req view = Inr (a, Redirect (To_login_next (path req)))"
  by (simp add: login_required_def)

lemma login_required_user [simp]:
  "current_user (db a) (sessions a) c = Some u \<Longrightarrow> login_required a c req view = view u"
  by (simp add: login_required_def)

lemma login_required_Inr:
  "login_required a c req view = Inr (a', r) \<Longrightarrow>
   (current_user (db a) (sessions a) c = None \<and> a' = a \<and> r = Redirect (To_login_next (path req))) \<or>
   (\<exists>u. current_user (db a) (sessions a) c = Some u \<and> view u = Inr (a', r))"
  by (auto simp: login_required_def split: option.splits)

lemma user_by_username_Some:
  "user_by_username d n = Some u \<Longrightarrow> u \<in> set (users d) \<and> username u = n"
  by (auto simp: user_by_username_def find_Some_iff nth_mem)

lemma user_by_username_None:
  "user_by_username d n = None \<longleftrightarrow> n \<notin> username ` set (users d)"
  by (auto simp: user_by_username_def find_None_iff)

lemma get_or_404_Inr:
  "get_or_404 d i = Inr p \<longleftrightarrow> post_get d i = Some p"
  by (simp add: get_or_404_def split: option.splits)

lemma get_or_404_Inl:
  "get_or_404 d i = Inl e \<longleftrightarrow> e = NotFound \<and> post_get d i = None"
  by (auto simp: get_or_404_def split: option.splits)

lemma post_get_Some_pid: "post_get d i = Some p \<Longrightarrow> pid p = i \<and> p \<in> set (posts d)"
  by (auto simp: post_get_def find_Some_iff nth_mem)

lemma register_fresh_eq:
  assumes "request_method req = POST" and "form req ''username'' = Some name"
    and "form req ''email'' = Some em" and "form req ''password'' = Some pw"
    and "name \<notin> username ` set (users (db a))" and "em \<notin> email ` set (users (db a))"
  shows "register H e req a =
           Inr (a\<lparr>db := (db a)\<lparr>users := users (db a) @
                  [\<lparr>uid = next_rowid (map uid (users (db a))), username = name, email = em,
                    password_hash = generate_password_hash H (salt e) pw\<rparr>]\<rparr>\<rparr>, Redirect To_login)"
proof -
  from assms(5) have "user_by_username (db a) name = None"
    by (simp add: user_by_username_None)
  with assms show ?thesis
    by (simp add: register_def add_user_def set_password_def new_user_def image_iff)
qed

lemma login_known_user:
  assumes "request_method req = POST" and "form req ''username'' = Some name"
    and "form req ''password'' = Some pw" and "user_by_username (db a) name = Some u"
  shows "login H c req a =
           (if check_password H u pw then Inr (a\<lparr>sessions := login_user (sessions a) c u\<rparr>, Redirect To_index)
            else Inr (a, Text Msg_bad_credentials))"
  using assms by (simp add: login_def)

lemma user_by_username_snoc_new:
  "name \<notin> username ` set (users d) \<Longrightarrow> username x = name \<Longrightarrow>
   user_by_username (d\<lparr>users := users d @ [x]\<rparr>) name = Some x"
  by (simp add: user_by_username_def find_key_snoc_new)

lemmas view_defs = register_def login_def logout_def index_def about_def create_def
  post_view_def edit_def delete_def profile_def

lemmas view_splits = if_splits option.splits sum.splits

subsection \<open>Preservation of the state every view keeps\<close>

lemma users_add_user: "add_user d u = Inr d' \<Longrightarrow> set (users d) \<subseteq> set (users d')"
  by (auto simp: add_user_Inr_iff)

lemma posts_owned_add_user: "posts_owned d \<Longrightarrow> add_user d u = Inr d' \<Longrightarrow> posts_owned d'"
  by (auto simp: posts_owned_def posts_add_user dest!: users_add_user)

lemma posts_owned_add_post:
  "posts_owned d \<Longrightarrow> user_id p \<in> uid ` set (users d) \<Longrightarrow> posts_owned (add_post d tm p)"
  by (simp add: posts_owned_def add_post_def)

lemma posts_owned_update_post: "posts_owned d \<Longrightarrow> posts_owned (update_post d i t c a)"
  by (auto simp: posts_owned_def update_post_def)

lemma posts_owned_delete_post: "posts_owned d \<Longrightarrow> posts_owned (delete_post d i)"
  by (simp add: posts_owned_def delete_post_def)

lemma sessions_valid_post_writes [simp]:
  "sessions_valid (add_post d tm p) s = sessions_valid d s"
  "sessions_valid (update_post d i t ct au) s = sessions_valid d s"
  "sessions_valid (delete_post d i) s = sessions_valid d s"
  by (simp_all add: sessions_valid_def)

text \<open>The state change of each writing view, in one disjunction per view.\<close>

lemma register_state:
  assumes "register H e req a = Inr (a', r)"
  shows "a' = a \<or> (\<exists>u d'. add_user (db a) u = Inr d' \<and> a' = a\<lparr>db := d'\<rparr>)"
  using assms by (auto simp: register_def bind_err_eq_Inr split: if_splits)

lemma logout_state:
  assumes "logout c req a = Inr (a', r)"
  shows "a' = a \<or> a' = a\<lparr>sessions := logout_user (sessions a) c\<rparr>"
  using assms by (auto simp: logout_def dest!: login_required_Inr)

lemma create_state:
  assumes "create e c req a = Inr (a', r)"
  shows "a' = a \<or> (\<exists>u t ct au. current_user (db a) (sessions a) c = Some u \<and>
           a' = a\<lparr>db := add_post (db a) (now e) (new_post t ct au (uid u))\<rparr>)"
  using assms
  by (auto simp: create_def bind_err_eq_Inr dest!: login_required_Inr split: if_splits) blast

lemma edit_state:
  assumes "edit c req i a = Inr (a', r)"
  shows "a' = a \<or> (\<exists>p t ct au. post_get (db a) i = Some p \<and>
           a' = a\<lparr>db := update_post (db a) (pid p) t ct au\<rparr>)"
  using assms
  by (auto simp: edit_def bind_err_eq_Inr get_or_404_Inr dest!: login_required_Inr split: if_splits) blast

lemma delete_state:
  assumes "delete c req i a = Inr (a', r)"
  shows "a' = a \<or> (\<exists>p. post_get (db a) i = Some p \<and> a' = a\<lparr>db := delete_post (db a) (pid p)\<rparr>)"
  using assms by (auto simp: delete_def bind_err_eq_Inr get_or_404_Inr dest!: login_required_Inr)

lemma register_app_ok:
  assumes "app_ok a" and "register H e req a = Inr (a', r)"
  shows "app_ok a'"
  using register_state [OF assms(2)] assms(1)
  by (auto simp: app_ok_def wf_db_add_user posts_owned_add_user
      intro: sessions_valid_mono [OF _ users_add_user])

lemma login_state:
  assumes "login H c req a = Inr (a', r)"
  shows "a' = a \<or> (\<exists>u. u \<in> set (users (db a)) \<and> a' = a\<lparr>sessions := login_user (sessions a) c u\<rparr>)"
proof (cases "request_method req = POST")
  case True
  with assms show ?thesis
    by (auto simp: login_def bind_err_eq_Inr split: if_splits option.splits dest: user_by_username_Some)
next
  case False
  with assms show ?thesis by (simp add: login_def)
qed

lemma login_app_ok:
  assumes "app_ok a" and "login H c req a = Inr (a', r)"
  shows "app_ok a'"
  using login_state [OF assms(2)] assms(1)
  by (auto simp: app_ok_def intro: sessions_valid_login_user)

lemma logout_app_ok:
  assumes "app_ok a" and "logout c req a = Inr (a', r)"
  shows "app_ok a'"
  using logout_state [OF assms(2)] assms(1)
  by (auto simp: app_ok_def sessions_valid_logout_user)

lemma create_app_ok:
  assumes "app_ok a" and "create e c req a = Inr (a', r)"
  shows "app_ok a'"
proof -
  have "current_user (db a) (sessions a) c = Some u \<Longrightarrow> uid u \<in> uid ` set (users (db a))" for u
    using assms(1) current_user_Some by (fastforce simp: app_ok_def)
  then show ?thesis
    using create_state [OF assms(2)] assms(1)
    by (auto simp: app_ok_def wf_db_add_post new_post_def intro!: posts_owned_add_post)
qed

lemma edit_app_ok:
  assumes "app_ok a" and "edit c req i a = Inr (a', r)"
  shows "app_ok a'"
  using edit_state [OF assms(2)] assms(1)
  by (auto simp: app_ok_def wf_db_update_post posts_owned_update_post)

lemma delete_app_ok:
  assumes "app_ok a" and "delete c req i a = Inr (a', r)"
  shows "app_ok a'"
  using delete_state [OF assms(2)] assms(1)
  by (auto simp: app_ok_def wf_db_delete_post posts_owned_delete_post)

lemma read_only_views:
  "index a = Inr (a', r) \<Longrightarrow> a' = a"
  "about a = Inr (a', r) \<Longrightarrow> a' = a"
  "post_view i a = Inr (a', r) \<Longrightarrow> a' = a"
  "profile c req n a = Inr (a', r) \<Longrightarrow> a' = a"
  by (auto simp: index_def about_def post_view_def profile_def bind_err_eq_Inr
      dest!: login_required_Inr split: option.splits)

lemma view_function_app_ok:
  assumes "app_ok a" and "view_function H e c req ep a = Inr (a', r)"
  shows "app_ok a'"
  using assms
  by (cases ep) (auto dest: read_only_views register_app_ok login_app_ok logout_app_ok
      create_app_ok edit_app_ok delete_app_ok)

subsection \<open>Behaviour of the views\<close>

text \<open>
  C2: Creating a post as the logged-in user \<open>u\<close> appends one row whose owner
  \<^verbatim>\<open>user_id\<close> is \<open>u\<close>'s id, whatever display name the form gives as
  \<^verbatim>\<open>author\<close>; the row gets the next rowid and the request's time.
\<close>

theorem create_sets_owner:
  assumes "current_user (db a) (sessions a) c = Some u" and "request_method req = POST"
    and "form req ''title'' = Some t" and "form req ''content'' = Some ct"
    and "form req ''author'' = Some au"
  shows "create e c req a =
           Inr (a\<lparr>db := (db a)\<lparr>posts := posts (db a) @
                  [\<lparr>pid = next_rowid (map pid (posts (db a))), title = t, content = ct,
                    author = au, created_at = now e, user_id = uid u\<rparr>]\<rparr>\<rparr>, Redirect To_index)"
  using assms by (simp add: create_def add_post_def new_post_def)

lemma create_sets_owner_witness:
  "create \<lparr>now = 7, salt = ''''\<rparr> 1
     (post_form [(''title'', ''X''), (''content'', ''Y''), (''author'', ''alice'')] ''/create'') demo_app =
   Inr (demo_app\<lparr>db := (db demo_app)\<lparr>posts := posts (db demo_app) @
          [\<lparr>pid = next_rowid (map pid (posts (db demo_app))), title = ''X'', content = ''Y'',
            author = ''alice'', created_at = now \<lparr>now = 7, salt = ''''\<rparr>, user_id = uid bob\<rparr>]\<rparr>\<rparr>,
        Redirect To_index)"
  by (rule create_sets_owner) (simp_all add: demo_simps)

text \<open>
  A view behind \<^verbatim>\<open>@login_required\<close>, requested by a client without a
  current user, redirects to the login view (with the requested path as
  \<^verbatim>\<open>next\<close>) and changes nothing: no post is created, edited or deleted.
\<close>

lemma view_function_anonymous:
  assumes "requires_login ep" and "current_user (db a) (sessions a) c = None"
  shows "view_function H e c req ep a = Inr (a, Redirect (To_login_next (path req)))"
  using assms by (cases ep) (simp_all add: view_defs)

text \<open>
  C4: A registration with a user name that is already taken answers with the
  "user name exists" text and leaves the state as it was: no second row.
\<close>

theorem register_duplicate_username:
  assumes "request_method req = POST" and "form req ''username'' = Some name"
    and "form req ''email'' = Some em" and "form req ''password'' = Some pw"
    and "name \<in> username ` set (users (db a))"
  shows "register H e req a = Inr (a, Text Msg_username_exists)"
proof -
  from assms(5) have "user_by_username (db a) name \<noteq> None"
    by (simp add: user_by_username_None)
  with assms(1-4) show ?thesis by (simp add: register_def)
qed

lemma register_duplicate_username_witness:
  "register (\<lambda>m s p. p) \<lparr>now = 7, salt = ''0123456789abcdef''\<rparr>
     (post_form [(''username'', ''alice''), (''email'', ''new@x.com''), (''password'', ''pw'')] ''/register'')
     demo_app = Inr (demo_app, Text Msg_username_exists)"
  by (rule register_duplicate_username [where name = "''alice''" and em = "''new@x.com''" and pw = "''pw''"])
    (simp_all add: demo_simps)

text \<open>
  C8: Editing never changes the key, the creation time or the owner of any post,
  nor the users or the sessions: only \<^verbatim>\<open>title\<close>, \<^verbatim>\<open>content\<close> and
  \<^verbatim>\<open>author\<close> of the edited post can change.
\<close>

theorem edit_keeps_key_time_owner:
  assumes "edit c req i a = Inr (a', r)"
  shows "users (db a') = users (db a) \<and> sessions a' = sessions a \<and>
         map (\<lambda>p. (pid p, created_at p, user_id p)) (posts (db a')) =
         map (\<lambda>p. (pid p, created_at p, user_id p)) (posts (db a))"
  using edit_state [OF assms] by (auto simp: update_post_def)

lemma edit_keeps_key_time_owner_witness:
  "users (db (demo_app\<lparr>db := update_post (db demo_app) 1 ''T2'' ''C2'' ''B''\<rparr>)) = users (db demo_app) \<and>
   sessions (demo_app\<lparr>db := update_post (db demo_app) 1 ''T2'' ''C2'' ''B''\<rparr>) = sessions demo_app \<and>
   map (\<lambda>p. (pid p, created_at p, user_id p))
     (posts (db (demo_app\<lparr>db := update_post (db demo_app) 1 ''T2'' ''C2'' ''B''\<rparr>))) =
   map (\<lambda>p. (pid p, created_at p, user_id p)) (posts (db demo_app))"
  by (rule edit_keeps_key_time_owner [where c = 1 and i = 1 and r = "Redirect (To_post 1)"
      and req = "post_form [(''title'', ''T2''), (''content'', ''C2''), (''author'', ''B'')] ''/post/1/edit''"])
    (simp add: edit_def get_or_404_def demo_simps)

text \<open>
  C6: Deleting a stored post as any logged-in user removes it: the view redirects
  to the index and the detail view of that id then fails with 404.
\<close>

theorem delete_then_not_found:
  assumes "current_user (db a) (sessions a) c = Some u" and "post_get (db a) i = Some p"
  shows "delete c req i a = Inr (a\<lparr>db := delete_post (db a) i\<rparr>, Redirect To_index) \<and>
         post_view i (a\<lparr>db := delete_post (db a) i\<rparr>) = Inl NotFound"
  using assms post_get_Some_pid [OF assms(2)]
  by (simp add: delete_def post_view_def get_or_404_def post_get_delete_post_same)

lemma delete_then_not_found_witness:
  "delete 1 (post_form [] ''/post/1/delete'') 1 demo_app =
     Inr (demo_app\<lparr>db := delete_post (db demo_app) 1\<rparr>, Redirect To_index) \<and>
   post_view 1 (demo_app\<lparr>db := delete_post (db demo_app) 1\<rparr>) = Inl NotFound"
  by (rule delete_then_not_found [where u = bob and p = alice_post]) (simp_all add: demo_simps)

text \<open>
  C16: A registration with a new user name and a new e-mail address stores one
  row with the next id, whose \<^verbatim>\<open>password_hash\<close> is Werkzeug's
  \<open>method$salt$digest\<close> string of the password under the request's salt, and
  redirects to the login view.
\<close>

theorem register_new_user:
  assumes "request_method req = POST" and "form req ''username'' = Some name"
    and "form req ''email'' = Some em" and "form req ''password'' = Some pw"
    and "name \<notin> username ` set (users (db a))" and "em \<notin> email ` set (users (db a))"
  shows "register H e req a =
           Inr (a\<lparr>db := (db a)\<lparr>users := users (db a) @
                  [\<lparr>uid = next_rowid (map uid (users (db a))), username = name, email = em,
                    password_hash = generate_password_hash H (salt e) pw\<rparr>]\<rparr>\<rparr>, Redirect To_login)"
  using assms by (rule register_fresh_eq)

lemma register_new_user_witness:
  "register (\<lambda>m s p. p) \<lparr>now = 7, salt = ''0123456789abcdef''\<rparr>
     (post_form [(''username'', ''carol''), (''email'', ''c@x.com''), (''password'', ''pw'')] ''/register'')
     demo_app =
   Inr (demo_app\<lparr>db := (db demo_app)\<lparr>users := users (db demo_app) @
          [\<lparr>uid = next_rowid (map uid (users (db demo_app))), username = ''carol'', email = ''c@x.com'',
            password_hash = generate_password_hash (\<lambda>m s p. p) (salt \<lparr>now = 7, salt = ''0123456789abcdef''\<rparr>) ''pw''\<rparr>]\<rparr>\<rparr>,
        Redirect To_login)"
  by (rule register_new_user) (simp_all add: demo_simps)

text \<open>
  C17: A registration with a new user name but an e-mail address already stored is
  not caught by the view: the UNIQUE constraint makes the commit raise
  \<^verbatim>\<open>IntegrityError\<close>, the client gets a 500, and no row is stored.
\<close>

theorem register_duplicate_email_500:
  assumes "request_method req = POST" and "form req ''username'' = Some name"
    and "form req ''email'' = Some em" and "form req ''password'' = Some pw"
    and "name \<notin> username ` set (users (db a))" and "em \<in> email ` set (users (db a))"
  shows "register H e req a = Inl IntegrityError \<and> finalize a (register H e req a) = (a, Http_error 500)"
proof -
  from assms(5) have "user_by_username (db a) name = None"
    by (simp add: user_by_username_None)
  with assms show ?thesis
    by (simp add: register_def add_user_def set_password_def new_user_def)
qed

lemma register_duplicate_email_500_witness:
  "register (\<lambda>m s p. p) \<lparr>now = 7, salt = ''0123456789abcdef''\<rparr>
     (post_form [(''username'', ''carol''), (''email'', ''a@x.com''), (''password'', ''pw'')] ''/register'')
     demo_app = Inl IntegrityError \<and>
   finalize demo_app (register (\<lambda>m s p. p) \<lparr>now = 7, salt = ''0123456789abcdef''\<rparr>
     (post_form [(''username'', ''carol''), (''email'', ''a@x.com''), (''password'', ''pw'')] ''/register'')
     demo_app) = (demo_app, Http_error 500)"
  by (rule register_duplicate_email_500 [where name = "''carol''" and em = "''a@x.com''" and pw = "''pw''"])
    (simp_all add: demo_simps)

text \<open>
  C18: A \<^verbatim>\<open>POST\<close> to the create view by a logged-in user whose form lacks one of
  \<^verbatim>\<open>title\<close>, \<^verbatim>\<open>content\<close>, \<^verbatim>\<open>author\<close> raises
  \<^verbatim>\<open>BadRequestKeyError\<close>: the client gets a 400 and no post is stored. The
  column default of \<^verbatim>\<open>author\<close> is never used.
\<close>

theorem create_missing_field_400:
  assumes "current_user (db a) (sessions a) c = Some u" and "request_method req = POST"
    and "form req ''title'' = None \<or> form req ''content'' = None \<or> form req ''author'' = None"
  shows "(\<exists>k. create e c req a = Inl (BadRequestKeyError k)) \<and>
         finalize a (create e c req a) = (a, Http_error 400)"
  using assms by (auto simp: create_def form_get_def split: option.splits)

lemma create_missing_field_400_witness:
  "(\<exists>k. create \<lparr>now = 7, salt = ''''\<rparr> 0 (post_form [(''title'', ''T''), (''content'', ''C'')] ''/create'') demo_app =
          Inl (BadRequestKeyError k)) \<and>
   finalize demo_app (create \<lparr>now = 7, salt = ''''\<rparr> 0 (post_form [(''title'', ''T''), (''content'', ''C'')] ''/create'')
     demo_app) = (demo_app, Http_error 400)"
  by (rule create_missing_field_400 [where u = alice]) (simp_all add: demo_simps)

text \<open>
  C19: The profile view of a user name that is not stored dereferences
  \<^verbatim>\<open>None\<close>: it raises \<^verbatim>\<open>AttributeError\<close>, and the client gets a 500
  instead of a 404.
\<close>

theorem profile_unknown_user_500:
  assumes "current_user (db a) (sessions a) c = Some u"
    and "name \<notin> username ` set (users (db a))"
  shows "profile c req name a = Inl AttributeError \<and> finalize a (profile c req name a) = (a, Http_error 500)"
proof -
  from assms(2) have "user_by_username (db a) name = None"
    by (simp add: user_by_username_None)
  with assms(1) show ?thesis by (simp add: profile_def)
qed

lemma profile_unknown_user_500_witness:
  "profile 0 (post_form [] ''/profile/zed'') ''zed'' demo_app = Inl AttributeError \<and>
   finalize demo_app (profile 0 (post_form [] ''/profile/zed'') ''zed'' demo_app) = (demo_app, Http_error 500)"
  by (rule profile_unknown_user_500 [where u = alice]) (simp_all add: demo_simps)

text \<open>
  C20: The edit view checks no ownership: any logged-in user can overwrite the
  title, content and author of any stored post, also of another user's.
\<close>

theorem edit_by_any_user:
  assumes "current_user (db a) (sessions a) c = Some u" and "post_get (db a) i = Some p"
    and "request_method req = POST" and "form req ''title'' = Some t"
    and "form req ''content'' = Some ct" and "form req ''author'' = Some au"
  shows "edit c req i a = Inr (a\<lparr>db := update_post (db a) i t ct au\<rparr>, Redirect (To_post i))"
  using assms post_get_Some_pid [OF assms(2)] by (simp add: edit_def get_or_404_def)

lemma edit_by_any_user_witness:
  "user_id alice_post \<noteq> uid bob \<and>
   edit 1 (post_form [(''title'', ''X''), (''content'', ''Y''), (''author'', ''Z'')] ''/post/1/edit'') 1 demo_app =
     Inr (demo_app\<lparr>db := update_post (db demo_app) 1 ''X'' ''Y'' ''Z''\<rparr>, Redirect (To_post 1))"
  using edit_by_any_user [where a = demo_app and c = 1 and u = bob and i = 1 and p = alice_post
      and req = "post_form [(''title'', ''X''), (''content'', ''Y''), (''author'', ''Z'')] ''/post/1/edit''"
      and t = "''X''" and ct = "''Y''" and au = "''Z''"]
  by (simp add: demo_simps)

text \<open>
  C7: The profile view lists a user's posts as SQL promises for
  \<^verbatim>\<open>filter_by(user_id=...).order_by(created_at.desc())\<close>: exactly the stored
  posts of that user (as a multiset) and with non-increasing timestamps.
\<close>

theorem profile_lists_user_posts:
  assumes "profile c req name a = Inr (a', Render (Profile_page v ps))"
  shows "username v = name \<and> a' = a \<and>
         is_created_desc_ordering (filter (\<lambda>p. user_id p = uid v) (posts (db a))) ps"
  using assms order_by_created_desc_refines
  by (auto simp: profile_def posts_by_user_desc_def dest!: login_required_Inr user_by_username_Some
      split: option.splits)

lemma profile_lists_user_posts_witness:
  "username alice = ''alice'' \<and> demo_app = demo_app \<and>
   is_created_desc_ordering (filter (\<lambda>p. user_id p = uid alice) (posts (db demo_app))) [alice_post]"
  by (rule profile_lists_user_posts [where c = 0 and req = "post_form [] ''/profile/alice''"])
    (simp add: demo_simps profile_def posts_by_user_desc_def order_by_created_desc_def)

end
