(* ===== verification/Router.thy ===== *)
theory Router
  imports Handlers
begin

text \<open>
  The request router: the URL map the ten \<^verbatim>\<open>@app.route\<close> decorators of
  \<^verbatim>\<open>app.py\<close> build, Werkzeug's matching of a request path and method against
  it, Flask's dispatch to the view, and \<^verbatim>\<open>url_for\<close>, which builds the paths
  of the redirects. A path is the decoded \<^verbatim>\<open>PATH_INFO\<close>; it is split at
  \<open>/\<close> into segments. The converter \<^verbatim>\<open><int:post_id>\<close> accepts one or
  more ASCII digits (\<^verbatim>\<open>\d+\<close>, then \<^verbatim>\<open>int()\<close>), the default
  converter of \<^verbatim>\<open><username>\<close> one or more characters other than
  \<open>/\<close>. Werkzeug adds \<^verbatim>\<open>HEAD\<close> to a rule that allows \<^verbatim>\<open>GET\<close>,
  and Flask answers \<^verbatim>\<open>OPTIONS\<close> itself. A path no rule matches is 404; a
  path some rule matches with a method it does not allow is 405.
\<close>

subsection \<open>Paths and the integer converter\<close>

text \<open>Python's \<^verbatim>\<open>s.split(c)\<close>: always at least one part.\<close>

fun split_on :: "char \<Rightarrow> string \<Rightarrow> string list" where
  "split_on c [] = [[]]"
| "split_on c (x # xs) =
     (if x = c then [] # split_on c xs
      else (case split_on c xs of w # ws \<Rightarrow> (x # w) # ws | [] \<Rightarrow> [[x]]))"

definition slash :: char where
  "slash = CHR ''/''"

definition path_segments :: "string \<Rightarrow> string list option" where
  "path_segments p = (case p of c # rest \<Rightarrow> if c = slash then Some (split_on slash rest) else None | [] \<Rightarrow> None)"

definition is_digit :: "char \<Rightarrow> bool" where
  "is_digit ch \<longleftrightarrow> 48 \<le> (of_char ch :: nat) \<and> (of_char ch :: nat) \<le> 57"

definition digit_value :: "char \<Rightarrow> nat" where
  "digit_value ch = of_char ch - 48"

definition parse_int :: "string \<Rightarrow> nat option" where
  "parse_int s =
     (if s \<noteq> [] \<and> list_all is_digit s then Some (foldl (\<lambda>n ch. 10 * n + digit_value ch) 0 s)
      else None)"

text \<open>\<^verbatim>\<open>str(n)\<close> for the integer converter's \<^verbatim>\<open>to_url\<close>.\<close>

fun show_nat :: "nat \<Rightarrow> string" where
  "show_nat n = (if n < 10 then [char_of (48 + n)] else show_nat (n div 10) @ [char_of (48 + n mod 10)])"

declare show_nat.simps [simp del]

subsection \<open>The URL map\<close>

text \<open>
  The rule a list of segments matches, with the methods of its decorator
  (\<^verbatim>\<open>GET\<close> when the decorator names none).
\<close>

definition match_segments :: "string list \<Rightarrow> (endpoint \<times> http_method list) option" where
  "match_segments ss =
     (case ss of
        [s] \<Rightarrow>
          if s = [] then Some (EP_index, [GET])
          else if s = ''register'' then Some (EP_register, [GET, POST])
          else if s = ''login'' then Some (EP_login, [GET, POST])
          else if s = ''logout'' then Some (EP_logout, [GET])
          else if s = ''about'' then Some (EP_about, [GET])
          else if s = ''create'' then Some (EP_create, [GET, POST])
          else None
      | [s, v] \<Rightarrow>
          if s = ''post'' then map_option (\<lambda>i. (EP_post i, [GET])) (parse_int v)
          else if s = ''profile'' \<and> v \<noteq> [] then Some (EP_profile v, [GET])
          else None
      | [s, v, t] \<Rightarrow>
          if s = ''post'' \<and> t = ''edit'' then map_option (\<lambda>i. (EP_edit i, [GET, POST])) (parse_int v)
          else if s = ''post'' \<and> t = ''delete'' then map_option (\<lambda>i. (EP_delete i, [POST])) (parse_int v)
          else None
      | _ \<Rightarrow> None)"

definition allowed_methods :: "http_method list \<Rightarrow> http_method list" where
  "allowed_methods ms = ms @ (if GET \<in> set ms then [HEAD] else []) @ [OPTIONS]"

datatype route_result =
    Matched endpoint | Not_found | Method_not_allowed "http_method list"
  | Options_reply "http_method list"

definition route :: "http_method \<Rightarrow> string \<Rightarrow> route_result" where
  "route m p =
     (case path_segments p of
        None \<Rightarrow> Not_found
      | Some ss \<Rightarrow>
          (case match_segments ss of
             None \<Rightarrow> Not_found
           | Some (ep, ms) \<Rightarrow>
               if m \<notin> set (allowed_methods ms) then Method_not_allowed (allowed_methods ms)
               else if m = OPTIONS then Options_reply (allowed_methods ms)
               else Matched ep))"

text \<open>One request, from routing to the response (Flask's \<^verbatim>\<open>full_dispatch_request\<close>).\<close>

definition handle :: "hash_fun \<Rightarrow> env \<Rightarrow> client_id \<Rightarrow> request \<Rightarrow> app \<Rightarrow> app \<times> response" where
  "handle H e c req a =
     (case route (request_method req) (path req) of
        Not_found \<Rightarrow> (a, Http_error 404)
      | Method_not_allowed ms \<Rightarrow> (a, Http_error 405)
      | Options_reply ms \<Rightarrow> (a, Allow ms)
      | Matched ep \<Rightarrow> finalize a (view_function H e c req ep a))"

subsection \<open>Building URLs\<close>

text \<open>\<^verbatim>\<open>url_for(endpoint, **values)\<close>: the path, before percent-encoding.\<close>

fun url_for :: "endpoint \<Rightarrow> string" where
  "url_for EP_index = ''/''"
| "url_for EP_register = ''/register''"
| "url_for EP_login = ''/login''"
| "url_for EP_logout = ''/logout''"
| "url_for EP_about = ''/about''"
| "url_for EP_create = ''/create''"
| "url_for (EP_post i) = ''/post/'' @ show_nat i"
| "url_for (EP_edit i) = ''/post/'' @ show_nat i @ ''/edit''"
| "url_for (EP_delete i) = ''/post/'' @ show_nat i @ ''/delete''"
| "url_for (EP_profile n) = ''/profile/'' @ n"

text \<open>The path of a redirect's \<^verbatim>\<open>Location\<close> (the \<^verbatim>\<open>next\<close> query aside).\<close>

fun target_path :: "target \<Rightarrow> string" where
  "target_path To_login = url_for EP_login"
| "target_path (To_login_next _) = url_for EP_login"
| "target_path To_index = url_for EP_index"
| "target_path (To_post i) = url_for (EP_post i)"

text \<open>The methods of the rule of an endpoint.\<close>

fun rule_methods :: "endpoint \<Rightarrow> http_method list" where
  "rule_methods EP_register = [GET, POST]"
| "rule_methods EP_login = [GET, POST]"
| "rule_methods EP_create = [GET, POST]"
| "rule_methods (EP_edit _) = [GET, POST]"
| "rule_methods (EP_delete _) = [POST]"
| "rule_methods _ = [GET]"

text \<open>An endpoint whose URL variables the converters can give back.\<close>

fun buildable :: "endpoint \<Rightarrow> bool" where
  "buildable (EP_profile n) \<longleftrightarrow> n \<noteq> [] \<and> slash \<notin> set n"
| "buildable _ \<longleftrightarrow> True"

declare path_segments_def [model_simps] slash_def [model_simps] parse_int_def [model_simps]
  is_digit_def [model_simps] digit_value_def [model_simps] match_segments_def [model_simps]
  allowed_methods_def [model_simps] route_def [model_simps] handle_def [model_simps]

subsection \<open>Splitting and the converters\<close>


lemma split_on_no_sep: "c \<notin> set a \<Longrightarrow> split_on c a = [a]"
  by (induction a) auto

lemma split_on_sep: "c \<notin> set a \<Longrightarrow> split_on c (a @ c # b) = a # split_on c b"
proof (induction a)
  case Nil
  then show ?case by simp
next
  case (Cons x a)
  then have "x \<noteq> c" and "split_on c (a @ c # b) = a # split_on c b" by auto
  then show ?case by simp
qed

lemma digit_char_value: "(d::nat) < 10 \<Longrightarrow> digit_value (char_of (48 + d)) = d"
  by (simp add: digit_value_def of_char_of)

lemma digit_char_is_digit: "(d::nat) < 10 \<Longrightarrow> is_digit (char_of (48 + d))"
  by (simp add: is_digit_def of_char_of)

lemma show_nat_digits: "list_all is_digit (show_nat n)"
proof (induction n rule: show_nat.induct)
  case (1 n)
  then show ?case
    by (subst show_nat.simps) (simp add: digit_char_is_digit)
qed

lemma show_nat_nonempty [simp]: "show_nat n \<noteq> []"
  by (subst show_nat.simps) simp

lemma is_digit_not_slash: "is_digit ch \<Longrightarrow> ch \<noteq> slash"
  by (auto simp: is_digit_def slash_def)

lemma slash_not_in_show_nat: "slash \<notin> set (show_nat n)"
  using show_nat_digits [of n] by (auto simp: list_all_iff dest: is_digit_not_slash)

lemma foldl_show_nat: "foldl (\<lambda>n ch. 10 * n + digit_value ch) 0 (show_nat n) = n"
proof (induction n rule: show_nat.induct)
  case (1 n)
  show ?case
  proof (cases "n < 10")
    case True
    then show ?thesis by (subst show_nat.simps) (simp add: digit_char_value)
  next
    case False
    with "1.IH" show ?thesis
      by (subst show_nat.simps) (simp add: digit_char_value)
  qed
qed

text \<open>The integer converter reads back what \<^verbatim>\<open>url_for\<close> writes.\<close>

lemma parse_int_show_nat [simp]: "parse_int (show_nat n) = Some n"
  by (simp add: parse_int_def show_nat_digits foldl_show_nat)

lemma path_segments_slash: "path_segments (slash # s) = Some (split_on slash s)"
  by (simp add: path_segments_def)

lemma slash_char_not_in_show_nat [simp]: "CHR ''/'' \<notin> set (show_nat n)"
  using slash_not_in_show_nat by (simp add: slash_def)

lemma split_on_show_nat [simp]: "split_on CHR ''/'' (show_nat n) = [show_nat n]"
  by (simp add: split_on_no_sep)

lemma split_on_show_nat_sep [simp]:
  "split_on CHR ''/'' (show_nat n @ CHR ''/'' # b) = show_nat n # split_on CHR ''/'' b"
  by (simp add: split_on_sep)

lemma url_for_segments:
  "path_segments (url_for (EP_post i)) = Some [''post'', show_nat i]"
  "path_segments (url_for (EP_edit i)) = Some [''post'', show_nat i, ''edit'']"
  "path_segments (url_for (EP_delete i)) = Some [''post'', show_nat i, ''delete'']"
  "slash \<notin> set n \<Longrightarrow> path_segments (url_for (EP_profile n)) = Some [''profile'', n]"
  by (simp_all add: path_segments_def slash_def split_on_no_sep)

lemma route_simps:
  "route m p = (case path_segments p of None \<Rightarrow> Not_found | Some ss \<Rightarrow>
     (case match_segments ss of None \<Rightarrow> Not_found | Some (ep, ms) \<Rightarrow>
        if m \<notin> set (allowed_methods ms) then Method_not_allowed (allowed_methods ms)
        else if m = OPTIONS then Options_reply (allowed_methods ms) else Matched ep))"
  by (simp add: route_def)

lemma handle_matched:
  "route (request_method req) (path req) = Matched ep \<Longrightarrow>
   handle H e c req a = finalize a (view_function H e c req ep a)"
  by (simp add: handle_def)

subsection \<open>Properties of the router\<close>

text \<open>
  C10: \<^verbatim>\<open>url_for\<close> and the router agree: the path built for an endpoint,
  requested with a method of its rule, is routed back to the same endpoint with the
  same URL variables, for every post id and every user name the default converter
  can match (non-empty, without \<open>/\<close>).
\<close>

theorem route_url_for:
  assumes "buildable ep" and "m \<in> set (rule_methods ep)"
  shows "route m (url_for ep) = Matched ep"
  using assms
  by (cases ep) (auto simp: route_def match_segments_def allowed_methods_def
      path_segments_def slash_def split_on_no_sep)

lemma route_url_for_witness:
  "route POST (url_for (EP_delete 12)) = Matched (EP_delete 12) \<and>
   route GET (url_for (EP_profile ''alice'')) = Matched (EP_profile ''alice'')"
  using route_url_for [of "EP_delete 12" POST] route_url_for [of "EP_profile ''alice''" GET]
  by (simp add: slash_def)

text \<open>
  C3: A request without a current user to any view behind
  \<^verbatim>\<open>@login_required\<close> is answered with the redirect to the login view, and the
  state is unchanged: in particular \<^verbatim>\<open>/create\<close> creates no post.
\<close>

theorem handle_guarded_anonymous:
  assumes "route (request_method req) (path req) = Matched ep" and "requires_login ep"
    and "current_user (db a) (sessions a) c = None"
  shows "handle H e c req a = (a, Redirect (To_login_next (path req)))"
  using assms by (simp add: handle_matched view_function_anonymous)

lemma handle_guarded_anonymous_witness:
  "handle (\<lambda>m s p. p) \<lparr>now = 7, salt = ''''\<rparr> 5
     (post_form [(''title'', ''X''), (''content'', ''Y''), (''author'', ''Z'')] ''/create'') demo_app =
   (demo_app, Redirect (To_login_next ''/create''))"
  using handle_guarded_anonymous [where ep = EP_create and c = 5 and a = demo_app
      and req = "post_form [(''title'', ''X''), (''content'', ''Y''), (''author'', ''Z'')] ''/create''"
      and H = "\<lambda>m s p. p" and e = "\<lparr>now = 7, salt = []\<rparr>"]
  by (simp add: demo_simps route_def path_segments_def slash_def match_segments_def allowed_methods_def)

text \<open>
  C21: The delete URL answers a \<^verbatim>\<open>GET\<close> with 405 Method Not Allowed and deletes
  nothing: only \<^verbatim>\<open>POST\<close> reaches the view \<^verbatim>\<open>delete\<close>.
\<close>

theorem delete_by_get_405:
  assumes "request_method req = GET" and "path req = url_for (EP_delete i)"
  shows "handle H e c req a = (a, Http_error 405)"
  using assms
  by (simp add: handle_def route_def path_segments_def slash_def match_segments_def allowed_methods_def)

lemma delete_by_get_405_witness:
  "handle (\<lambda>m s p. p) \<lparr>now = 7, salt = ''''\<rparr> 0
     \<lparr>request_method = GET, path = url_for (EP_delete 1), form = Map.empty\<rparr> demo_app =
   (demo_app, Http_error 405)"
  by (rule delete_by_get_405 [where i = 1]) simp_all



end
