(* ===== verification/System.thy ===== *)
theory System
  imports Router
begin

text \<open>
  The whole application as a state machine. A world is the application state
  (database and sessions) and the wall clock. A step is either one request of some
  client, routed and handled by \<open>handle\<close> with the current time as
  \<^verbatim>\<open>CURRENT_TIMESTAMP\<close> and a fresh \<^verbatim>\<open>gen_salt\<close> salt, or the clock
  moving forward. Requests are handled one at a time (each view's writes are one
  commit, and SQLite serialises commits), so any interleaving of the clients is a
  sequence of steps. The start state is the empty database of \<^verbatim>\<open>init_db\<close>
  with no sessions.
\<close>

record world =
  app_state :: app
  clock :: timestamp

definition init_world :: "timestamp \<Rightarrow> world" where
  "init_world t = \<lparr>app_state = \<lparr>db = empty_db, sessions = Map.empty\<rparr>, clock = t\<rparr>"

inductive app_step :: "hash_fun \<Rightarrow> world \<Rightarrow> world \<Rightarrow> bool" for H where
  request: "valid_salt s \<Longrightarrow>
    app_step H w (w\<lparr>app_state := fst (handle H \<lparr>now = clock w, salt = s\<rparr> c req (app_state w))\<rparr>)"
| tick: "clock w \<le> t \<Longrightarrow> app_step H w (w\<lparr>clock := t\<rparr>)"

inductive reachable :: "hash_fun \<Rightarrow> world \<Rightarrow> bool" for H where
  init: "reachable H (init_world t)"
| step: "reachable H w \<Longrightarrow> app_step H w w' \<Longrightarrow> reachable H w'"

inductive_cases app_step_cases: "app_step H w w'"

text \<open>Posts are stored in creation order, and none was created in the future.\<close>

definition chronological :: "timestamp \<Rightarrow> database \<Rightarrow> bool" where
  "chronological t d \<longleftrightarrow> sorted (map created_at (posts d)) \<and> (\<forall>p \<in> set (posts d). created_at p \<le> t)"

definition world_inv :: "world \<Rightarrow> bool" where
  "world_inv w \<longleftrightarrow> app_ok (app_state w) \<and> chronological (clock w) (db (app_state w))"

text \<open>
  A sequence of requests, each at its time and from its client, handled one after
  the other: the responses in order and the final state.
\<close>

fun run :: "hash_fun \<Rightarrow> string \<Rightarrow> (timestamp \<times> client_id \<times> request) list \<Rightarrow> app \<Rightarrow> app \<times> response list" where
  "run H s [] a = (a, [])"
| "run H s ((t, c, req) # rs) a =
     (let (a', r) = handle H \<lparr>now = t, salt = s\<rparr> c req a; (a'', rs') = run H s rs a' in (a'', r # rs'))"

text \<open>
  A run of the witnesses: Alice registers on client 0 at time 0 and logs in at time 0.
  The digest function of the witnesses is the identity on the password, which
  satisfies every hypothesis the theorems put on it.
\<close>

definition demo_salt :: string where
  "demo_salt = ''abcdefgh12345678''"

definition demo_hash :: hash_fun where
  "demo_hash m s p = p"

definition demo_register :: request where
  "demo_register = post_form [(''username'', ''alice''), (''email'', ''a@x.com''), (''password'', ''pw'')] ''/register''"

definition demo_login :: request where
  "demo_login = post_form [(''username'', ''alice''), (''password'', ''pw'')] ''/login''"

definition demo_w1 :: world where
  "demo_w1 = (init_world 0)\<lparr>app_state :=
     fst (handle demo_hash \<lparr>now = 0, salt = demo_salt\<rparr> 0 demo_register (app_state (init_world 0)))\<rparr>"

definition demo_w2 :: world where
  "demo_w2 = demo_w1\<lparr>app_state :=
     fst (handle demo_hash \<lparr>now = 0, salt = demo_salt\<rparr> 0 demo_login (app_state demo_w1))\<rparr>"

declare init_world_def [model_simps] demo_salt_def [model_simps] demo_hash_def [model_simps]
  demo_register_def [model_simps] demo_login_def [model_simps] demo_w1_def [model_simps]
  demo_w2_def [model_simps]

subsection \<open>Creation order under each write\<close>

lemma map_created_at_update_post [simp]:
  "map created_at (posts (update_post d i t ct au)) = map created_at (posts d)"
  by (simp add: update_post_def comp_def)

lemma chronological_add_post: "chronological t d \<Longrightarrow> chronological t (add_post d t p)"
  by (auto simp: chronological_def add_post_def sorted_append)

lemma chronological_update_post: "chronological t d \<Longrightarrow> chronological t (update_post d i ti ct au)"
  by (simp add: chronological_def) (auto simp: update_post_def)

lemma chronological_delete_post: "chronological t d \<Longrightarrow> chronological t (delete_post d i)"
  by (auto simp: chronological_def delete_post_def sorted_map intro: sorted_wrt_filter)

lemma chronological_add_user: "add_user d u = Inr d' \<Longrightarrow> chronological t d \<Longrightarrow> chronological t d'"
  by (simp add: chronological_def posts_add_user)

lemma chronological_mono: "chronological t d \<Longrightarrow> t \<le> t' \<Longrightarrow> chronological t' d"
  by (auto simp: chronological_def)

lemma view_function_chronological:
  assumes "chronological (now e) (db a)" and "view_function H e c req ep a = Inr (a', r)"
  shows "chronological (now e) (db a')"
proof (cases ep)
  case EP_register
  with assms show ?thesis by (auto dest!: register_state intro: chronological_add_user)
next
  case EP_login
  with assms show ?thesis by (auto dest!: login_state)
next
  case EP_logout
  with assms show ?thesis by (auto dest!: logout_state)
next
  case EP_create
  with assms show ?thesis by (auto dest!: create_state intro: chronological_add_post)
next
  case (EP_edit i)
  with assms show ?thesis by (auto dest!: edit_state intro: chronological_update_post)
next
  case (EP_delete i)
  with assms show ?thesis by (auto dest!: delete_state intro: chronological_delete_post)
qed (use assms in \<open>auto dest: read_only_views\<close>)

subsection \<open>One request, one step\<close>

lemma handle_state:
  "fst (handle H e c req a) = a \<or> (\<exists>ep r. view_function H e c req ep a = Inr (fst (handle H e c req a), r))"
  by (auto simp: handle_def finalize_def split: route_result.splits sum.splits)

lemma handle_app_ok: "app_ok a \<Longrightarrow> app_ok (fst (handle H e c req a))"
  using handle_state [of H e c req a] by (auto intro: view_function_app_ok)

lemma handle_chronological:
  "chronological (now e) (db a) \<Longrightarrow> chronological (now e) (db (fst (handle H e c req a)))"
  using handle_state [of H e c req a] by (metis view_function_chronological)

lemma init_world_inv: "world_inv (init_world t)"
  by (simp add: world_inv_def init_world_def app_ok_def wf_db_def sessions_valid_def
      posts_owned_def chronological_def empty_db_def)

lemma app_step_world_inv:
  assumes "app_step H w w'" and "world_inv w"
  shows "world_inv w'"
  using assms
proof (cases rule: app_step.cases)
  case (request s c req)
  with assms(2) show ?thesis
    by (simp add: world_inv_def handle_app_ok handle_chronological [where e = "\<lparr>now = clock w, salt = s\<rparr>", simplified])
next
  case (tick t)
  with assms(2) show ?thesis
    by (auto simp: world_inv_def intro: chronological_mono)
qed

lemma reachable_invariant: "reachable H w \<Longrightarrow> world_inv w"
  by (induction rule: reachable.induct) (auto intro: init_world_inv app_step_world_inv)

subsection \<open>Properties of every reachable state\<close>

lemma reachable_request:
  "reachable H w \<Longrightarrow> valid_salt s \<Longrightarrow>
   reachable H (w\<lparr>app_state := fst (handle H \<lparr>now = clock w, salt = s\<rparr> c req (app_state w))\<rparr>)"
  by (rule reachable.step) (auto intro: app_step.request)

lemma valid_demo_salt: "valid_salt demo_salt"
  by (simp add: model_simps)

lemma reachable_demo_w1: "reachable demo_hash demo_w1"
  using reachable_request [OF reachable.init valid_demo_salt, of demo_hash 0 0 demo_register]
  by (simp add: demo_w1_def init_world_def)

lemma reachable_demo_w2: "reachable demo_hash demo_w2"
  using reachable_request [OF reachable_demo_w1 valid_demo_salt, of 0 demo_login]
  by (simp add: demo_w2_def demo_w1_def init_world_def)

lemma demo_w2_eq:
  "demo_w2 = (init_world 0)\<lparr>app_state := \<lparr>db = \<lparr>users = [\<lparr>uid = 1, username = ''alice'',
     email = ''a@x.com'', password_hash = generate_password_hash demo_hash demo_salt ''pw''\<rparr>], posts = []\<rparr>,
     sessions = [0 \<mapsto> 1]\<rparr>\<rparr>"
  by (simp add: model_simps)

text \<open>
  C1: In every reachable state the tables are well formed (keys ascending and
  unique, user names and e-mail addresses unique), every post is owned by a stored
  user, every session names a stored user, and the posts are stored in creation order
  with no timestamp after the clock.
\<close>

theorem reachable_world_inv:
  assumes "reachable H w"
  shows "wf_db (db (app_state w)) \<and> posts_owned (db (app_state w)) \<and>
         sessions_valid (db (app_state w)) (sessions (app_state w)) \<and>
         chronological (clock w) (db (app_state w))"
  using reachable_invariant [OF assms] by (simp add: world_inv_def app_ok_def)

lemma reachable_world_inv_witness:
  "wf_db (db (app_state demo_w2)) \<and> posts_owned (db (app_state demo_w2)) \<and>
   sessions_valid (db (app_state demo_w2)) (sessions (app_state demo_w2)) \<and>
   chronological (clock demo_w2) (db (app_state demo_w2))"
  by (rule reachable_world_inv [OF reachable_demo_w2])



text \<open>
  C14: When no two stored posts carry the same timestamp, a user's profile lists
  exactly that user's posts newest first: the reverse of their storage order.
\<close>

theorem profile_newest_first:
  assumes "reachable H w" and "distinct (map created_at (posts (db (app_state w))))"
    and "current_user (db (app_state w)) (sessions (app_state w)) c = Some u"
    and "user_by_username (db (app_state w)) name = Some v"
  shows "profile c req name (app_state w) =
           Inr (app_state w, Render (Profile_page v
                  (rev (filter (\<lambda>p. user_id p = uid v) (posts (db (app_state w)))))))"
proof -
  let ?ps = "posts (db (app_state w))"
  have "sorted (map created_at ?ps)"
    using reachable_invariant [OF assms(1)] by (simp add: world_inv_def chronological_def)
  with assms(2) have "sorted_wrt (<) (map created_at ?ps)"
    by (simp add: strict_sorted_iff)
  then have "sorted_wrt (<) (map created_at (filter (\<lambda>p. user_id p = uid v) ?ps))"
    by (simp add: sorted_wrt_map sorted_wrt_filter)
  then have "posts_by_user_desc (db (app_state w)) (uid v) = rev (filter (\<lambda>p. user_id p = uid v) ?ps)"
    by (simp add: posts_by_user_desc_def order_by_created_desc_chronological)
  with assms(3,4) show ?thesis by (simp add: profile_def)
qed

lemma profile_newest_first_witness:
  "profile 0 \<lparr>request_method = GET, path = ''/profile/alice'', form = Map.empty\<rparr> ''alice'' (app_state demo_w2) =
     Inr (app_state demo_w2, Render (Profile_page (hd (users (db (app_state demo_w2))))
       (rev (filter (\<lambda>p. user_id p = uid (hd (users (db (app_state demo_w2))))) (posts (db (app_state demo_w2)))))))"
  by (rule profile_newest_first [OF reachable_demo_w2, where u = "hd (users (db (app_state demo_w2)))"])
    (simp_all only: demo_w2_eq, simp_all add: model_simps)



end
